theory Spec2Isabelle
  imports Complex_Main "HOL-Library.Signed_Division"
begin

section \<open>Strings and errors\<close>

text \<open>
  JavaScript strings are modelled as \<open>string\<close>. \<open>String.prototype.toLowerCase\<close> is
  modelled on the ASCII letters \<open>A\<close> to \<open>Z\<close> (codes 65 to 90, lowered by setting
  the bit of value 32); every other character is kept. The literals the program compares
  lowered strings with (\<open>eth\<close>, \<open>usdt\<close> and the lowered WETH address) contain neither
  \<open>i\<close> nor \<open>k\<close>, the only ASCII letters that a non-ASCII character lowers to, so the
  comparisons of the program agree with the model.
\<close>

definition toLowerChar :: "char \<Rightarrow> char" where
  "toLowerChar c =
     (if 65 \<le> (of_char c :: nat) \<and> (of_char c :: nat) \<le> 90
      then (case c of Char b0 b1 b2 b3 b4 b5 b6 b7 \<Rightarrow> Char b0 b1 b2 b3 b4 True b6 b7)
      else c)"

definition toLowerCase :: "string \<Rightarrow> string" where
  "toLowerCase s = map toLowerChar s"

text \<open>
  The values a \<open>throw\<close> of the program or of the ethers library can carry.
  \<open>InvalidTokenString\<close> is \<open>Error("Invalid token string")\<close>, \<open>MissingAmountIn\<close> is
  \<open>Error("Missing amountIn")\<close>, \<open>NoValidLiquidityPool\<close> is
  \<open>Error("No valid liquidity pool found.")\<close>. \<open>NumericFault\<close> and \<open>InvalidArgument\<close> are
  the errors of the ethers logger (\<open>NUMERIC_FAULT\<close>, \<open>INVALID_ARGUMENT\<close>), and
  \<open>Rejected m\<close> is the rejection of a call to a network collaborator with message \<open>m\<close>.
\<close>

datatype error =
    InvalidTokenString
  | MissingAmountIn
  | NoValidLiquidityPool
  | NumericFault
  | InvalidArgument
  | Rejected string

text \<open>
  A value read from the JSON body or from a header is taken to be a string or to be
  absent (\<open>undefined\<close> or \<open>null\<close>, here \<open>None\<close>); body fields of another JSON type
  are not modelled. \<open>falsy\<close> is the test \<open>!x\<close> on such a value.
\<close>

definition falsy :: "string option \<Rightarrow> bool" where
  "falsy x = (case x of None \<Rightarrow> True | Some s \<Rightarrow> s = [])"

section \<open>Configuration\<close>

definition UNISWAP_V3_ROUTER_ADDRESS :: string where
  "UNISWAP_V3_ROUTER_ADDRESS = ''0xE592427A0AEce92De3Edee1F18E0157C05861564''"

definition QUOTER_ADDRESS :: string where
  "QUOTER_ADDRESS = ''0xb27308f9F90D607463bb33eA1BeBb41C27CE5AB6''"

definition feeTiers :: "nat list" where
  "feeTiers = [500, 3000, 10000]"

definition MAX_GAS_LIMIT :: int where
  "MAX_GAS_LIMIT = 300000"

definition WETH_ADDRESS :: string where
  "WETH_ADDRESS = ''0xC02aaA39b223FE8D0A0e5C4F27eAD9083C756Cc2''"

section \<open>Token resolver\<close>

definition toAddress :: "string option \<Rightarrow> error + string" where
  "toAddress tokenStr =
     (if falsy tokenStr then Inl InvalidTokenString
      else let lower = toLowerCase (the tokenStr)
           in if lower = ''eth'' then Inr WETH_ADDRESS else Inr (the tokenStr))"

section \<open>Slippage policy\<close>

text \<open>
  The slippage bound is a JavaScript number. It is modelled as a rational: the program
  only forms \<open>0.005\<close>, \<open>0.005 * 2\<close>, \<open>0.03\<close>, their products with \<open>100\<close> and the
  differences \<open>100 - _\<close>, and on these the double-precision results (\<open>0.01\<close>, \<open>0.5\<close>,
  \<open>1\<close>, \<open>3\<close>, \<open>99.5\<close>, \<open>99\<close>, \<open>97\<close>) are the doubles of the exact rational results.
\<close>

definition BASE_SLIPPAGE :: rat where
  "BASE_SLIPPAGE = 5 / 1000"

definition MAX_SLIPPAGE :: rat where
  "MAX_SLIPPAGE = 3 / 100"

definition calculateSlippage :: "string \<Rightarrow> string \<Rightarrow> rat" where
  "calculateSlippage tokenIn tokenOut =
     (if toLowerCase tokenIn = toLowerCase WETH_ADDRESS \<and> toLowerCase tokenOut = ''usdt''
      then BASE_SLIPPAGE
      else if toLowerCase tokenIn = toLowerCase WETH_ADDRESS
              \<or> toLowerCase tokenOut = toLowerCase WETH_ADDRESS
      then min (BASE_SLIPPAGE * 2) MAX_SLIPPAGE
      else MAX_SLIPPAGE)"

section \<open>The ethers library (version 5)\<close>

text \<open>
  The library is not part of the repository; the operations the program calls are
  modelled after the library's sources (packages \<open>bignumber\<close> and \<open>units\<close>). The
  program computes on amounts with the library's \<open>BigNumber\<close>, an integer of arbitrary
  precision: \<open>int\<close>. A JavaScript number given to \<open>mul\<close> or \<open>div\<close> goes through
  \<open>BigNumber.from\<close>, which throws a numeric fault for a number with a fractional part
  (\<open>value % 1\<close>) and for one outside the safe integers. \<open>div\<close> throws on a zero
  divisor and truncates towards zero.
\<close>

definition MAX_SAFE :: rat where
  "MAX_SAFE = 9007199254740991"

definition BigNumber_from :: "rat \<Rightarrow> error + int" where
  "BigNumber_from v =
     (if frac v \<noteq> 0 then Inl NumericFault
      else if v \<ge> MAX_SAFE \<or> v \<le> - MAX_SAFE then Inl NumericFault
      else Inr \<lfloor>v\<rfloor>)"

definition BigNumber_mul :: "int \<Rightarrow> rat \<Rightarrow> error + int" where
  "BigNumber_mul a other =
     (case BigNumber_from other of Inl e \<Rightarrow> Inl e | Inr b \<Rightarrow> Inr (a * b))"

definition BigNumber_div :: "int \<Rightarrow> rat \<Rightarrow> error + int" where
  "BigNumber_div a other =
     (case BigNumber_from other of
        Inl e \<Rightarrow> Inl e
      | Inr b \<Rightarrow> if b = 0 then Inl NumericFault else Inr (a sdiv b))"

definition MaxUint256 :: int where
  "MaxUint256 = 2 ^ 256 - 1"

text \<open>Decimal numerals: \<open>BigNumber.prototype.toString\<close> and the reading of a digit string.\<close>

definition digitChar :: "nat \<Rightarrow> char" where
  "digitChar d = ''0123456789'' ! d"

fun toDecimal :: "nat \<Rightarrow> string" where
  "toDecimal n = (if n < 10 then [digitChar n] else toDecimal (n div 10) @ [digitChar (n mod 10)])"

declare toDecimal.simps [simp del]

definition BigNumber_toString :: "int \<Rightarrow> string" where
  "BigNumber_toString i = (if i < 0 then CHR ''-'' # toDecimal (nat (- i)) else toDecimal (nat i))"

definition isDigit :: "char \<Rightarrow> bool" where
  "isDigit c = (48 \<le> (of_char c :: nat) \<and> (of_char c :: nat) \<le> 57)"

definition digitVal :: "char \<Rightarrow> nat" where
  "digitVal c = of_char c - 48"

definition fromDecimal :: "string \<Rightarrow> nat" where
  "fromDecimal ds = foldl (\<lambda>a c. 10 * a + digitVal c) 0 ds"

fun splitOn :: "char \<Rightarrow> string \<Rightarrow> string list" where
  "splitOn sep [] = [[]]"
| "splitOn sep (c # cs) =
     (if c = sep then [] # splitOn sep cs
      else (c # hd (splitOn sep cs)) # tl (splitOn sep cs))"

definition trimTrailingZeros :: "string \<Rightarrow> string" where
  "trimTrailingZeros ds = rev (dropWhile (\<lambda>c. c = CHR ''0'') (rev ds))"

text \<open>
  \<open>utils.parseUnits(value, decimals)\<close> with a string \<open>value\<close> and a number of decimals
  is \<open>parseFixed\<close>: the value must match \<open>/^-?[0-9.]+$/\<close>, must not be \<open>.\<close> alone and
  must have at most one point; an empty whole or fractional part is \<open>0\<close>; trailing zeros
  of the fraction are dropped, a fraction longer than \<open>decimals\<close> is a numeric fault, a
  shorter one is padded with zeros; the result is \<open>whole * 10^decimals + fraction\<close>.
\<close>

definition matchesDecimal :: "string \<Rightarrow> bool" where
  "matchesDecimal v =
     (let u = (if take 1 v = ''-'' then drop 1 v else v)
      in u \<noteq> [] \<and> list_all (\<lambda>c. isDigit c \<or> c = CHR ''.'') u)"

definition parseUnits :: "string \<Rightarrow> nat \<Rightarrow> error + int" where
  "parseUnits v decimals =
     (if \<not> matchesDecimal v then Inl InvalidArgument
      else let negative = (take 1 v = ''-'');
               u = (if negative then drop 1 v else v)
           in if u = ''.'' then Inl InvalidArgument
              else let comps = splitOn CHR ''.'' u
                   in if length comps > 2 then Inl InvalidArgument
                      else let whole = (if hd comps = [] then ''0'' else hd comps);
                               fraction0 = (if length comps < 2 \<or> comps ! 1 = [] then ''0''
                                            else comps ! 1);
                               fraction1 = trimTrailingZeros fraction0
                           in if length fraction1 > decimals then Inl NumericFault
                              else let fraction2 = (if fraction1 = [] then ''0'' else fraction1);
                                       fraction3 = fraction2
                                         @ replicate (decimals - length fraction2) CHR ''0'';
                                       wei = int (fromDecimal whole) * 10 ^ decimals
                                             + int (fromDecimal fraction3)
                                   in Inr (if negative then - wei else wei))"

text \<open>
  \<open>utils.formatUnits(value, decimals)\<close> is \<open>formatFixed\<close>: the fraction is
  \<open>value mod 10^decimals\<close> padded on the left to \<open>decimals\<close> digits, then cut to the
  match of \<open>/^([0-9]*[1-9]|0)(0*)/\<close> (its trailing zeros dropped, one \<open>0\<close> kept when it is
  all zeros); the result is \<open>whole.fraction\<close>, and \<open>whole\<close> alone only when \<open>decimals\<close>
  is zero.
\<close>

definition formatUnits :: "int \<Rightarrow> nat \<Rightarrow> string" where
  "formatUnits v decimals =
     (let negative = (v < 0);
          a = nat \<bar>v\<bar>;
          multiplier = (10::nat) ^ decimals;
          fraction0 = toDecimal (a mod multiplier);
          fraction1 = replicate (decimals - length fraction0) CHR ''0'' @ fraction0;
          fraction2 = (if list_all (\<lambda>c. c = CHR ''0'') fraction1 then ''0''
                       else trimTrailingZeros fraction1);
          whole = toDecimal (a div multiplier);
          r = (if decimals = 0 then whole else whole @ ''.'' @ fraction2)
      in if negative then CHR ''-'' # r else r)"

section \<open>Network collaborators\<close>

text \<open>
  The calls that leave the process, in the order the program awaits them, are recorded in
  a trace. \<open>Wait h\<close> is \<open>tx.wait()\<close> on the transaction \<open>h\<close>.
\<close>

record swapParams =
  sp_tokenIn :: string
  sp_tokenOut :: string
  sp_fee :: nat
  sp_recipient :: string
  sp_deadline :: nat
  sp_amountIn :: int
  sp_amountOutMinimum :: int
  sp_sqrtPriceLimitX96 :: int

datatype call =
    Decimals string
  | BalanceOf string string
  | Allowance string string string
  | Approve string string int
  | Wait string
  | QuoteExactInputSingle string string nat int int
  | ExactInputSingle swapParams int int

text \<open>
  What the collaborators answer during one request: \<open>Inl\<close> is a rejected promise.
  \<open>wallet_of\<close> is \<open>new ethers.Wallet(key, provider)\<close>, which throws on a malformed key
  and otherwise gives the signer's address; \<open>date_now\<close> is \<open>Date.now()\<close> in milliseconds.
\<close>

record env =
  wallet_of :: "string \<Rightarrow> error + string"
  erc20_decimals :: "string \<Rightarrow> error + nat"
  erc20_balanceOf :: "string \<Rightarrow> string \<Rightarrow> error + int"
  erc20_allowance :: "string \<Rightarrow> string \<Rightarrow> string \<Rightarrow> error + int"
  erc20_approve :: "string \<Rightarrow> string \<Rightarrow> int \<Rightarrow> error + string"
  quoter_quoteExactInputSingle :: "string \<Rightarrow> string \<Rightarrow> nat \<Rightarrow> int \<Rightarrow> int \<Rightarrow> error + int"
  router_exactInputSingle :: "swapParams \<Rightarrow> int \<Rightarrow> int \<Rightarrow> error + string"
  tx_wait :: "string \<Rightarrow> error + string"
  date_now :: nat

text \<open>
  An asynchronous computation returns the calls it made and its result or the error it
  threw. \<open>andThen\<close> is sequencing with \<open>await\<close>: an error ends the computation.
\<close>

type_synonym 'a io = "call list \<times> (error + 'a)"

definition ret :: "'a \<Rightarrow> 'a io" where
  "ret x = ([], Inr x)"

definition lift :: "error + 'a \<Rightarrow> 'a io" where
  "lift r = ([], r)"

definition perform :: "call \<Rightarrow> error + 'a \<Rightarrow> 'a io" where
  "perform c r = ([c], r)"

definition andThen :: "'a io \<Rightarrow> ('a \<Rightarrow> 'b io) \<Rightarrow> 'b io" where
  "andThen m f =
     (case m of
        (cs, Inl e) \<Rightarrow> (cs, Inl e)
      | (cs, Inr x) \<Rightarrow> (case f x of (cs', r) \<Rightarrow> (cs @ cs', r)))"

section \<open>Amount normalizer\<close>

definition getTokenDecimals :: "env \<Rightarrow> string \<Rightarrow> nat io" where
  "getTokenDecimals ev tokenAddress =
     (if toLowerCase tokenAddress = toLowerCase WETH_ADDRESS then ret 18
      else perform (Decimals tokenAddress) (erc20_decimals ev tokenAddress))"

definition parseAmountIn :: "env \<Rightarrow> string option \<Rightarrow> string option \<Rightarrow> int io" where
  "parseAmountIn ev amountInString tokenInString =
     (if falsy amountInString then lift (Inl MissingAmountIn)
      else andThen (lift (toAddress tokenInString)) (\<lambda>tokenAddress.
           andThen (getTokenDecimals ev tokenAddress) (\<lambda>decimals.
           lift (parseUnits (the amountInString) decimals))))"

section \<open>Quote engine\<close>

text \<open>
  The loop over the fee tiers: the first tier whose simulated call does not throw is
  returned with its output; a tier whose call throws is logged and skipped.
\<close>

fun tryFeeTiers :: "env \<Rightarrow> string \<Rightarrow> string \<Rightarrow> int \<Rightarrow> nat list \<Rightarrow> (nat \<times> int) io" where
  "tryFeeTiers ev tokenInAddress tokenOutAddress amountInWei [] =
     lift (Inl NoValidLiquidityPool)"
| "tryFeeTiers ev tokenInAddress tokenOutAddress amountInWei (fee # rest) =
     (case quoter_quoteExactInputSingle ev tokenInAddress tokenOutAddress fee amountInWei 0 of
        Inr amountOut \<Rightarrow>
          ([QuoteExactInputSingle tokenInAddress tokenOutAddress fee amountInWei 0],
           Inr (fee, amountOut))
      | Inl e \<Rightarrow>
          (case tryFeeTiers ev tokenInAddress tokenOutAddress amountInWei rest of
             (cs, r) \<Rightarrow>
               (QuoteExactInputSingle tokenInAddress tokenOutAddress fee amountInWei 0 # cs, r)))"

definition getBestQuote :: "env \<Rightarrow> string \<Rightarrow> string \<Rightarrow> int \<Rightarrow> (nat \<times> int) io" where
  "getBestQuote ev tokenInAddress tokenOutAddress amountInWei =
     tryFeeTiers ev tokenInAddress tokenOutAddress amountInWei feeTiers"

section \<open>Minimum output\<close>

text \<open>The expression \<open>amountOut.mul(100 - (dynamicSlippage * 100)).div(100)\<close>.\<close>

definition amountOutMinimum :: "int \<Rightarrow> rat \<Rightarrow> error + int" where
  "amountOutMinimum amountOut dynamicSlippage =
     (case BigNumber_mul amountOut (100 - dynamicSlippage * 100) of
        Inl e \<Rightarrow> Inl e
      | Inr p \<Rightarrow> BigNumber_div p 100)"

section \<open>Request handlers\<close>

record request =
  hdr_authorization :: "string option"
  body_amountIn :: "string option"
  body_tokenIn :: "string option"
  body_tokenOut :: "string option"

text \<open>
  The JSON bodies of the responses: \<open>ErrorMessage m\<close> is \<open>{error: m}\<close> with a literal
  of the program, \<open>ErrorThrown e\<close> is \<open>{error: error.message}\<close> for the caught error,
  \<open>TransactionHash h\<close> is \<open>{transactionHash: h}\<close> and \<open>Quote f a r\<close> is
  \<open>{feeTier: f, amountOut: a, amountOutRaw: r}\<close>.
\<close>

datatype body =
    ErrorMessage string
  | ErrorThrown error
  | TransactionHash string
  | Quote nat string string

record response =
  status :: nat
  body :: body

text \<open>The \<open>try\<close> block of \<open>POST /swap\<close>.\<close>

definition ensureAllowance :: "env \<Rightarrow> string \<Rightarrow> string \<Rightarrow> int \<Rightarrow> unit io" where
  "ensureAllowance ev tokenInAddress walletAddress amountInWei =
     andThen (perform (Allowance tokenInAddress walletAddress UNISWAP_V3_ROUTER_ADDRESS)
                (erc20_allowance ev tokenInAddress walletAddress UNISWAP_V3_ROUTER_ADDRESS))
       (\<lambda>allowance.
          if allowance < amountInWei
          then andThen (perform (Approve tokenInAddress UNISWAP_V3_ROUTER_ADDRESS MaxUint256)
                          (erc20_approve ev tokenInAddress UNISWAP_V3_ROUTER_ADDRESS MaxUint256))
                 (\<lambda>approveTx.
                    andThen (perform (Wait approveTx) (tx_wait ev approveTx)) (\<lambda>receipt. ret ()))
          else ret ())"

definition quoteAndSubmit :: "env \<Rightarrow> string \<Rightarrow> string \<Rightarrow> string \<Rightarrow> int \<Rightarrow> response io" where
  "quoteAndSubmit ev walletAddress tokenInAddress tokenOutAddress amountInWei =
     andThen (getBestQuote ev tokenInAddress tokenOutAddress amountInWei) (\<lambda>(fee, amountOut).
     andThen (lift (amountOutMinimum amountOut
                      (calculateSlippage tokenInAddress tokenOutAddress))) (\<lambda>minimumOut.
       let params = \<lparr> sp_tokenIn = tokenInAddress, sp_tokenOut = tokenOutAddress,
                      sp_fee = fee, sp_recipient = walletAddress,
                      sp_deadline = date_now ev div 1000 + 300,
                      sp_amountIn = amountInWei, sp_amountOutMinimum = minimumOut,
                      sp_sqrtPriceLimitX96 = 0 \<rparr>
       in andThen (perform (ExactInputSingle params MAX_GAS_LIMIT 0)
                     (router_exactInputSingle ev params MAX_GAS_LIMIT 0)) (\<lambda>swapTx.
          andThen (perform (Wait swapTx) (tx_wait ev swapTx)) (\<lambda>transactionHash.
          ret \<lparr> status = 200, body = TransactionHash transactionHash \<rparr>))))"

definition swapTry :: "env \<Rightarrow> request \<Rightarrow> response io" where
  "swapTry ev req =
     andThen (lift (wallet_of ev (the (hdr_authorization req)))) (\<lambda>walletAddress.
     andThen (lift (toAddress (body_tokenIn req))) (\<lambda>tokenInAddress.
     andThen (lift (toAddress (body_tokenOut req))) (\<lambda>tokenOutAddress.
     andThen (parseAmountIn ev (body_amountIn req) (body_tokenIn req)) (\<lambda>amountInWei.
     andThen (perform (BalanceOf tokenInAddress walletAddress)
                (erc20_balanceOf ev tokenInAddress walletAddress)) (\<lambda>balance.
       if balance < amountInWei
       then ret \<lparr> status = 400, body = ErrorMessage ''Insufficient token balance.'' \<rparr>
       else andThen (ensureAllowance ev tokenInAddress walletAddress amountInWei) (\<lambda>u.
            quoteAndSubmit ev walletAddress tokenInAddress tokenOutAddress amountInWei))))))"

text \<open>A thrown error is caught at the end of the handler and answered with status 500.\<close>

definition catch500 :: "response io \<Rightarrow> call list \<times> response" where
  "catch500 m =
     (case m of
        (cs, Inr r) \<Rightarrow> (cs, r)
      | (cs, Inl e) \<Rightarrow> (cs, \<lparr> status = 500, body = ErrorThrown e \<rparr>))"

definition swap :: "env \<Rightarrow> request \<Rightarrow> call list \<times> response" where
  "swap ev req =
     (if falsy (hdr_authorization req)
      then ([], \<lparr> status = 401,
                  body = ErrorMessage ''Private key required in Authorization header'' \<rparr>)
      else if falsy (body_amountIn req) \<or> falsy (body_tokenIn req) \<or> falsy (body_tokenOut req)
      then ([], \<lparr> status = 400,
                  body = ErrorMessage ''Missing required parameters in request body'' \<rparr>)
      else catch500 (swapTry ev req))"

text \<open>The \<open>try\<close> block of \<open>POST /quote\<close> and the handler.\<close>

definition quoteTry :: "env \<Rightarrow> request \<Rightarrow> response io" where
  "quoteTry ev req =
     andThen (lift (toAddress (body_tokenIn req))) (\<lambda>tokenInAddress.
     andThen (lift (toAddress (body_tokenOut req))) (\<lambda>tokenOutAddress.
     andThen (parseAmountIn ev (body_amountIn req) (body_tokenIn req)) (\<lambda>amountInWei.
     andThen (getBestQuote ev tokenInAddress tokenOutAddress amountInWei) (\<lambda>(fee, amountOut).
     andThen (getTokenDecimals ev tokenOutAddress) (\<lambda>outDecimals.
     ret \<lparr> status = 200,
           body = Quote fee (formatUnits amountOut outDecimals)
                    (BigNumber_toString amountOut) \<rparr>)))))"

definition quote :: "env \<Rightarrow> request \<Rightarrow> call list \<times> response" where
  "quote ev req =
     (if falsy (body_amountIn req) \<or> falsy (body_tokenIn req) \<or> falsy (body_tokenOut req)
      then ([], \<lparr> status = 400,
                  body = ErrorMessage ''Missing required parameters in request body'' \<rparr>)
      else catch500 (quoteTry ev req))"

section \<open>Collaborators used in the examples\<close>

text \<open>
  A collaborator set for the worked examples: every token reports \<open>d\<close> decimals, every
  balance is \<open>b\<close>, every allowance is \<open>a\<close>, the quoter answers \<open>q fee\<close>, and
  transactions are mined.
\<close>

definition exampleEnv :: "(nat \<Rightarrow> error + int) \<Rightarrow> nat \<Rightarrow> int \<Rightarrow> int \<Rightarrow> env" where
  "exampleEnv q d b a =
     \<lparr> wallet_of = (\<lambda>key. Inr ''0xSIGNER''),
       erc20_decimals = (\<lambda>token. Inr d),
       erc20_balanceOf = (\<lambda>token owner. Inr b),
       erc20_allowance = (\<lambda>token owner spender. Inr a),
       erc20_approve = (\<lambda>token spender amount. Inr ''0xAPPROVAL''),
       quoter_quoteExactInputSingle = (\<lambda>tin tout fee amount limit. q fee),
       router_exactInputSingle = (\<lambda>params gas val. Inr ''0xSWAP''),
       tx_wait = (\<lambda>h. Inr h),
       date_now = 0 \<rparr>"

definition onlyTier :: "nat \<Rightarrow> int \<Rightarrow> nat \<Rightarrow> error + int" where
  "onlyTier tier out fee = (if fee = tier then Inr out else Inl (Rejected ''execution reverted''))"

definition exampleRequest :: "string \<Rightarrow> string \<Rightarrow> string \<Rightarrow> request" where
  "exampleRequest amount tin tout =
     \<lparr> hdr_authorization = Some ''0xKEY'', body_amountIn = Some amount,
       body_tokenIn = Some tin, body_tokenOut = Some tout \<rparr>"

section \<open>Basic facts\<close>

lemma toLowerCase_eth: "toLowerCase ''eth'' = ''eth''"
  by (simp add: toLowerCase_def toLowerChar_def)

lemma toLowerCase_WETH:
  "toLowerCase WETH_ADDRESS = ''0xc02aaa39b223fe8d0a0e5c4f27ead9083c756cc2''"
  by (simp add: toLowerCase_def toLowerChar_def WETH_ADDRESS_def)

lemma toDecimal_digit: "n < 10 \<Longrightarrow> toDecimal n = [digitChar n]"
  by (subst toDecimal.simps) simp

lemma toDecimal_step:
  "10 \<le> n \<Longrightarrow> toDecimal n = toDecimal (n div 10) @ [digitChar (n mod 10)]"
  by (subst toDecimal.simps) simp

lemma toLowerCase_usdt: "toLowerCase ''usdt'' = ''usdt''"
  by (simp add: toLowerCase_def toLowerChar_def)

lemma slippage_values:
  "BASE_SLIPPAGE = 5 / 1000" "min (BASE_SLIPPAGE * 2) MAX_SLIPPAGE = 1 / 100" "MAX_SLIPPAGE = 3 / 100"
  by (simp_all add: BASE_SLIPPAGE_def MAX_SLIPPAGE_def)

lemma toAddress_Some:
  "toAddress (Some s) =
     (if s = [] then Inl InvalidTokenString
      else if toLowerCase s = ''eth'' then Inr WETH_ADDRESS else Inr s)"
  by (simp add: toAddress_def falsy_def)

section \<open>Token resolver: claim C6\<close>

text \<open>
  Claim C6. A string equal to \<open>eth\<close> up to case resolves to the fixed WETH address;
  any other non-empty string resolves to itself; the empty string and an absent value fail
  with \<open>Error("Invalid token string")\<close>.
\<close>

theorem toAddress_resolves:
  "(toLowerCase s = toLowerCase ''eth'' \<longrightarrow> toAddress (Some s) = Inr WETH_ADDRESS)
   \<and> (s \<noteq> [] \<and> toLowerCase s \<noteq> toLowerCase ''eth'' \<longrightarrow> toAddress (Some s) = Inr s)
   \<and> toAddress (Some []) = Inl InvalidTokenString
   \<and> toAddress None = Inl InvalidTokenString"
proof -
  have "s \<noteq> []" if "toLowerCase s = ''eth''"
    using that by (auto simp: toLowerCase_def)
  then show ?thesis
    by (auto simp: toAddress_Some toLowerCase_eth) (simp add: toAddress_def falsy_def)
qed

theorem toAddress_resolves_witness:
  "toAddress (Some ''EtH'') = Inr WETH_ADDRESS
   \<and> toAddress (Some ''0xdAC17F958D2ee523a2206206994597C13D831ec7'')
       = Inr ''0xdAC17F958D2ee523a2206206994597C13D831ec7''"
  using toAddress_resolves [of "''EtH''"]
    toAddress_resolves [of "''0xdAC17F958D2ee523a2206206994597C13D831ec7''"]
  by (simp add: toLowerCase_def toLowerChar_def)

section \<open>Slippage policy: claims C3, C10, C9\<close>

text \<open>
  Claim C3. \<open>calculateSlippage\<close> is a function of its two arguments alone and compares
  them up to case: it returns 0.5% when \<open>tokenIn\<close> is WETH and \<open>tokenOut\<close> is \<open>usdt\<close>,
  1% (the minimum of 1% and 3%) when exactly one of the two is WETH and the first case
  does not apply, and 3% when neither is WETH.
\<close>

theorem calculateSlippage_table:
  "(toLowerCase tokenIn = toLowerCase WETH_ADDRESS \<and> toLowerCase tokenOut = toLowerCase ''usdt''
      \<longrightarrow> calculateSlippage tokenIn tokenOut = 5 / 1000)
   \<and> ((toLowerCase tokenIn = toLowerCase WETH_ADDRESS) \<noteq> (toLowerCase tokenOut = toLowerCase WETH_ADDRESS)
       \<and> \<not> (toLowerCase tokenIn = toLowerCase WETH_ADDRESS \<and> toLowerCase tokenOut = toLowerCase ''usdt'')
      \<longrightarrow> calculateSlippage tokenIn tokenOut = min (1 / 100) (3 / 100)
          \<and> calculateSlippage tokenIn tokenOut = 1 / 100)
   \<and> (toLowerCase tokenIn \<noteq> toLowerCase WETH_ADDRESS \<and> toLowerCase tokenOut \<noteq> toLowerCase WETH_ADDRESS
      \<longrightarrow> calculateSlippage tokenIn tokenOut = 3 / 100)"
  by (auto simp: calculateSlippage_def toLowerCase_usdt slippage_values)

theorem calculateSlippage_table_witness:
  "calculateSlippage ''0xc02AAA39b223FE8D0A0e5C4F27eAD9083C756Cc2'' ''USDT'' = 5 / 1000
   \<and> calculateSlippage WETH_ADDRESS ''0xdAC17F958D2ee523a2206206994597C13D831ec7'' = 1 / 100
   \<and> calculateSlippage ''0xdAC17F958D2ee523a2206206994597C13D831ec7'' WETH_ADDRESS = 1 / 100
   \<and> calculateSlippage ''0xdAC17F958D2ee523a2206206994597C13D831ec7''
        ''0x6B175474E89094C44Da98b954EedeAC495271d0F'' = 3 / 100"
  using calculateSlippage_table [of "''0xc02AAA39b223FE8D0A0e5C4F27eAD9083C756Cc2''" "''USDT''"]
    calculateSlippage_table [of WETH_ADDRESS "''0xdAC17F958D2ee523a2206206994597C13D831ec7''"]
    calculateSlippage_table [of "''0xdAC17F958D2ee523a2206206994597C13D831ec7''" WETH_ADDRESS]
    calculateSlippage_table [of "''0xdAC17F958D2ee523a2206206994597C13D831ec7''"
      "''0x6B175474E89094C44Da98b954EedeAC495271d0F''"]
  by (simp add: toLowerCase_def toLowerChar_def WETH_ADDRESS_def)

text \<open>
  Claim C10. When both tokens are the WETH address, \<open>calculateSlippage\<close> returns the
  1% bound and not the 3% ceiling: its second branch is a disjunction over the two tokens.
\<close>

theorem calculateSlippage_both_wrapped_native:
  "toLowerCase tokenIn = toLowerCase WETH_ADDRESS \<Longrightarrow>
   toLowerCase tokenOut = toLowerCase WETH_ADDRESS \<Longrightarrow>
   calculateSlippage tokenIn tokenOut = 1 / 100 \<and> calculateSlippage tokenIn tokenOut \<noteq> 3 / 100"
  by (simp add: calculateSlippage_def toLowerCase_WETH slippage_values)

theorem calculateSlippage_both_wrapped_native_witness:
  "toAddress (Some ''eth'') = Inr WETH_ADDRESS
   \<and> toLowerCase WETH_ADDRESS = toLowerCase WETH_ADDRESS
   \<and> calculateSlippage WETH_ADDRESS WETH_ADDRESS = 1 / 100
   \<and> calculateSlippage WETH_ADDRESS WETH_ADDRESS \<noteq> 3 / 100"
  using calculateSlippage_both_wrapped_native [of WETH_ADDRESS WETH_ADDRESS]
  by (simp add: toAddress_Some toLowerCase_eth)

lemma calculateSlippage_base_iff:
  "calculateSlippage a b = BASE_SLIPPAGE
     \<longleftrightarrow> toLowerCase a = toLowerCase WETH_ADDRESS \<and> toLowerCase b = ''usdt''"
  by (simp add: calculateSlippage_def BASE_SLIPPAGE_def MAX_SLIPPAGE_def)

lemma address_form_not_usdt: "take 2 s = ''0x'' \<Longrightarrow> toLowerCase s \<noteq> ''usdt''"
proof
  assume a: "take 2 s = ''0x''" and b: "toLowerCase s = ''usdt''"
  have "take 2 (toLowerCase s) = toLowerCase (take 2 s)"
    by (simp add: toLowerCase_def take_map)
  with a b show False
    by (simp add: toLowerCase_def toLowerChar_def)
qed

text \<open>
  Claim C9. On the swap path \<open>calculateSlippage\<close> receives the results of \<open>toAddress\<close>.
  It returns the 0.5% bound exactly when the resolved \<open>tokenIn\<close> is WETH and the
  \<open>tokenOut\<close> string the user supplied is \<open>usdt\<close> up to case, a string that \<open>toAddress\<close>
  returns unchanged; for a \<open>tokenOut\<close> that starts with \<open>0x\<close> or is the alias \<open>eth\<close>
  the 0.5% bound is never returned.
\<close>

theorem stable_branch_needs_literal_identifier:
  assumes "toAddress (Some tokenIn) = Inr tokenInAddress"
    and "toAddress (Some tokenOut) = Inr tokenOutAddress"
  shows "(calculateSlippage tokenInAddress tokenOutAddress = BASE_SLIPPAGE
            \<longleftrightarrow> toLowerCase tokenInAddress = toLowerCase WETH_ADDRESS
                \<and> toLowerCase tokenOut = ''usdt'')
         \<and> (toLowerCase tokenOut = ''usdt'' \<longrightarrow> tokenOutAddress = tokenOut)
         \<and> (take 2 tokenOut = ''0x''
              \<longrightarrow> calculateSlippage tokenInAddress tokenOutAddress \<noteq> BASE_SLIPPAGE)
         \<and> (toLowerCase tokenOut = ''eth''
              \<longrightarrow> calculateSlippage tokenInAddress tokenOutAddress \<noteq> BASE_SLIPPAGE)"
proof -
  have out: "tokenOutAddress = (if toLowerCase tokenOut = ''eth'' then WETH_ADDRESS else tokenOut)"
    using assms(2) by (auto simp: toAddress_Some split: if_splits)
  have same: "toLowerCase tokenOutAddress = ''usdt'' \<longleftrightarrow> toLowerCase tokenOut = ''usdt''"
    by (simp add: out toLowerCase_WETH)
  show ?thesis
    using address_form_not_usdt [of tokenOut]
    by (auto simp: calculateSlippage_base_iff same out toLowerCase_WETH)
qed

theorem stable_branch_needs_literal_identifier_witness:
  "toAddress (Some ''eth'') = Inr WETH_ADDRESS
   \<and> toAddress (Some ''0xdAC17F958D2ee523a2206206994597C13D831ec7'')
       = Inr ''0xdAC17F958D2ee523a2206206994597C13D831ec7''
   \<and> toAddress (Some ''UsDt'') = Inr ''UsDt''
   \<and> calculateSlippage WETH_ADDRESS ''0xdAC17F958D2ee523a2206206994597C13D831ec7'' \<noteq> BASE_SLIPPAGE
   \<and> calculateSlippage WETH_ADDRESS WETH_ADDRESS \<noteq> BASE_SLIPPAGE
   \<and> calculateSlippage WETH_ADDRESS ''UsDt'' = BASE_SLIPPAGE"
proof -
  have e: "toAddress (Some ''eth'') = Inr WETH_ADDRESS"
    by (simp add: toAddress_Some toLowerCase_eth)
  have a: "toAddress (Some ''0xdAC17F958D2ee523a2206206994597C13D831ec7'')
             = Inr ''0xdAC17F958D2ee523a2206206994597C13D831ec7''"
    by (simp add: toAddress_Some toLowerCase_def toLowerChar_def)
  have u: "toAddress (Some ''UsDt'') = Inr ''UsDt''"
    by (simp add: toAddress_Some toLowerCase_def toLowerChar_def)
  show ?thesis
    using stable_branch_needs_literal_identifier [OF e a]
      stable_branch_needs_literal_identifier [OF e e]
      stable_branch_needs_literal_identifier [OF e u] e a u
    by (simp add: toLowerCase_def toLowerChar_def)
qed

section \<open>Minimum output\<close>

text \<open>
  For the bounds 1% and 3% the factor \<open>100 - bound * 100\<close> is the integer 99 or 97 and
  the minimum output is the truncated quotient; for the bound 0.5% the factor is \<open>99.5\<close>
  and \<open>BigNumber.mul\<close> throws.
\<close>

lemma amountOutMinimum_one_percent:
  "amountOutMinimum amountOut (min (BASE_SLIPPAGE * 2) MAX_SLIPPAGE) = Inr ((amountOut * 99) sdiv 100)"
  by (simp add: amountOutMinimum_def BigNumber_mul_def BigNumber_div_def BigNumber_from_def
      MAX_SAFE_def BASE_SLIPPAGE_def MAX_SLIPPAGE_def)

lemma amountOutMinimum_three_percent:
  "amountOutMinimum amountOut MAX_SLIPPAGE = Inr ((amountOut * 97) sdiv 100)"
  by (simp add: amountOutMinimum_def BigNumber_mul_def BigNumber_div_def BigNumber_from_def
      MAX_SAFE_def MAX_SLIPPAGE_def)

lemma amountOutMinimum_half_percent:
  "amountOutMinimum amountOut BASE_SLIPPAGE = Inl NumericFault"
  by (simp add: amountOutMinimum_def BigNumber_mul_def BigNumber_from_def BASE_SLIPPAGE_def)

lemma sdiv_nonneg: "0 \<le> a \<Longrightarrow> 0 < b \<Longrightarrow> (a::int) sdiv b = a div b"
  by (simp add: signed_divide_int_def sgn_if)

lemma amountOutMinimum_truncates:
  assumes "0 \<le> amountOut"
  shows "amountOutMinimum amountOut (min (BASE_SLIPPAGE * 2) MAX_SLIPPAGE)
           = Inr (amountOut * 99 div 100)"
    and "amountOutMinimum amountOut MAX_SLIPPAGE = Inr (amountOut * 97 div 100)"
  using assms
  by (simp_all add: amountOutMinimum_one_percent amountOutMinimum_three_percent sdiv_nonneg)

section \<open>Sequencing\<close>

lemma andThen_Inr: "andThen (cs, Inr x) f = (cs @ fst (f x), snd (f x))"
  by (simp add: andThen_def split: prod.split)

lemma andThen_Inl: "andThen (cs, Inl e) f = (cs, Inl e)"
  by (simp add: andThen_def)

lemma andThen_lift_Inr: "andThen (lift (Inr x)) f = f x"
  by (simp add: lift_def andThen_Inr)

lemma andThen_lift_Inl: "andThen (lift (Inl e)) f = ([], Inl e)"
  by (simp add: lift_def andThen_Inl)

lemma andThen_ret: "andThen (ret x) f = f x"
  by (simp add: ret_def andThen_Inr)

lemma andThen_perform_Inr: "andThen (perform c (Inr x)) f = (c # fst (f x), snd (f x))"
  by (simp add: perform_def andThen_Inr)

lemma andThen_perform_Inl: "andThen (perform c (Inl e)) f = ([c], Inl e)"
  by (simp add: perform_def andThen_Inl)

lemmas andThen_simps = andThen_Inr andThen_Inl andThen_lift_Inr andThen_lift_Inl andThen_ret
  andThen_perform_Inr andThen_perform_Inl

section \<open>Quote engine: claim C2\<close>

text \<open>
  The loop on any list of tiers: the calls made are the failing tiers in order followed by
  the first succeeding one, whose output is returned; without a succeeding tier every tier
  is called and the loop throws \<open>Error("No valid liquidity pool found.")\<close>.
\<close>

lemma tryFeeTiers_trace_result:
  "tryFeeTiers ev a b amt tiers =
     (map (\<lambda>fee. QuoteExactInputSingle a b fee amt 0)
        (takeWhile (\<lambda>fee. isl (quoter_quoteExactInputSingle ev a b fee amt 0)) tiers
         @ take 1 (dropWhile (\<lambda>fee. isl (quoter_quoteExactInputSingle ev a b fee amt 0)) tiers)),
      case dropWhile (\<lambda>fee. isl (quoter_quoteExactInputSingle ev a b fee amt 0)) tiers of
        [] \<Rightarrow> Inl NoValidLiquidityPool
      | fee # rest \<Rightarrow> Inr (fee, projr (quoter_quoteExactInputSingle ev a b fee amt 0)))"
proof (induction tiers)
  case Nil
  show ?case by (simp add: lift_def)
next
  case (Cons fee rest)
  show ?case
  proof (cases "quoter_quoteExactInputSingle ev a b fee amt 0")
    case (Inl e)
    with Cons show ?thesis by simp
  next
    case (Inr out)
    then show ?thesis by simp
  qed
qed


lemma getBestQuote_cases:
  "getBestQuote ev a b amt =
    (case quoter_quoteExactInputSingle ev a b 500 amt 0 of
       Inr out \<Rightarrow> ([QuoteExactInputSingle a b 500 amt 0], Inr (500, out))
     | Inl e1 \<Rightarrow>
      (case quoter_quoteExactInputSingle ev a b 3000 amt 0 of
         Inr out \<Rightarrow> ([QuoteExactInputSingle a b 500 amt 0, QuoteExactInputSingle a b 3000 amt 0],
                      Inr (3000, out))
       | Inl e2 \<Rightarrow>
        (case quoter_quoteExactInputSingle ev a b 10000 amt 0 of
           Inr out \<Rightarrow> ([QuoteExactInputSingle a b 500 amt 0, QuoteExactInputSingle a b 3000 amt 0,
                         QuoteExactInputSingle a b 10000 amt 0], Inr (10000, out))
         | Inl e3 \<Rightarrow> ([QuoteExactInputSingle a b 500 amt 0, QuoteExactInputSingle a b 3000 amt 0,
                         QuoteExactInputSingle a b 10000 amt 0], Inl NoValidLiquidityPool))))"
  by (simp add: getBestQuote_def feeTiers_def lift_def split: sum.split)


text \<open>
  Claim C2. \<open>getBestQuote\<close> tries the tiers 500, 3000, 10000 in this ascending order. It
  returns tier \<open>fee\<close> with output \<open>out\<close> exactly when the quoter answers \<open>out\<close> for
  \<open>fee\<close> and throws for every lower tier, and then the calls made are those for the tiers
  up to \<open>fee\<close>, none for a later tier. It throws, and then the no-liquidity error, exactly
  when the quoter throws for every tier, after calling each.
\<close>

theorem getBestQuote_first_success:
  "feeTiers = [500, 3000, 10000] \<and> sorted feeTiers
   \<and> (snd (getBestQuote ev a b amt) = Inr (fee, out) \<longleftrightarrow>
        fee \<in> set feeTiers \<and> quoter_quoteExactInputSingle ev a b fee amt 0 = Inr out
        \<and> (\<forall>f \<in> set feeTiers. f < fee \<longrightarrow> isl (quoter_quoteExactInputSingle ev a b f amt 0)))
   \<and> (snd (getBestQuote ev a b amt) = Inr (fee, out) \<longrightarrow>
        fst (getBestQuote ev a b amt)
          = map (\<lambda>f. QuoteExactInputSingle a b f amt 0) (filter (\<lambda>f. f \<le> fee) feeTiers))
   \<and> (snd (getBestQuote ev a b amt) = Inl e \<longleftrightarrow>
        e = NoValidLiquidityPool
        \<and> (\<forall>f \<in> set feeTiers. isl (quoter_quoteExactInputSingle ev a b f amt 0)))
   \<and> (snd (getBestQuote ev a b amt) = Inl e \<longrightarrow>
        fst (getBestQuote ev a b amt) = map (\<lambda>f. QuoteExactInputSingle a b f amt 0) feeTiers)"
proof -
  have c1: "feeTiers = [500, 3000, 10000] \<and> sorted feeTiers"
    by (simp add: feeTiers_def)
  have c2: "snd (getBestQuote ev a b amt) = Inr (fee, out) \<longleftrightarrow>
        fee \<in> set feeTiers \<and> quoter_quoteExactInputSingle ev a b fee amt 0 = Inr out
        \<and> (\<forall>f \<in> set feeTiers. f < fee \<longrightarrow> isl (quoter_quoteExactInputSingle ev a b f amt 0))"
    by (auto simp: getBestQuote_cases feeTiers_def split: sum.splits)
  have c3: "snd (getBestQuote ev a b amt) = Inr (fee, out) \<longrightarrow>
        fst (getBestQuote ev a b amt)
          = map (\<lambda>f. QuoteExactInputSingle a b f amt 0) (filter (\<lambda>f. f \<le> fee) feeTiers)"
    by (auto simp: getBestQuote_cases feeTiers_def split: sum.splits)
  have c4: "snd (getBestQuote ev a b amt) = Inl e \<longleftrightarrow>
        e = NoValidLiquidityPool
        \<and> (\<forall>f \<in> set feeTiers. isl (quoter_quoteExactInputSingle ev a b f amt 0))"
    by (auto simp: getBestQuote_cases feeTiers_def split: sum.splits)
  have c5: "snd (getBestQuote ev a b amt) = Inl e \<longrightarrow>
        fst (getBestQuote ev a b amt) = map (\<lambda>f. QuoteExactInputSingle a b f amt 0) feeTiers"
    by (auto simp: getBestQuote_cases feeTiers_def split: sum.splits)
  from c1 c2 c3 c4 c5 show ?thesis by blast
qed


theorem getBestQuote_first_success_witness:
  "snd (getBestQuote (exampleEnv (onlyTier 10000 1000000) 6 0 0) ''0xA'' ''0xB'' 5)
     = Inr (10000, 1000000)
   \<and> fst (getBestQuote (exampleEnv (onlyTier 10000 1000000) 6 0 0) ''0xA'' ''0xB'' 5)
     = [QuoteExactInputSingle ''0xA'' ''0xB'' 500 5 0, QuoteExactInputSingle ''0xA'' ''0xB'' 3000 5 0,
        QuoteExactInputSingle ''0xA'' ''0xB'' 10000 5 0]
   \<and> snd (getBestQuote (exampleEnv (onlyTier 500 1000000) 6 0 0) ''0xA'' ''0xB'' 5)
     = Inr (500, 1000000)
   \<and> fst (getBestQuote (exampleEnv (onlyTier 500 1000000) 6 0 0) ''0xA'' ''0xB'' 5)
     = [QuoteExactInputSingle ''0xA'' ''0xB'' 500 5 0]
   \<and> snd (getBestQuote (exampleEnv (onlyTier 0 0) 6 0 0) ''0xA'' ''0xB'' 5)
     = Inl NoValidLiquidityPool"
proof -
  have q: "quoter_quoteExactInputSingle (exampleEnv (onlyTier t v) d x y) ti to f am li
             = (if f = t then Inr v else Inl (Rejected ''execution reverted''))" for t v d x y ti to f am li
    by (simp add: exampleEnv_def onlyTier_def)
  note third = getBestQuote_first_success [of "exampleEnv (onlyTier 10000 1000000) 6 0 0"
      "''0xA''" "''0xB''" 5 10000 1000000 NoValidLiquidityPool]
  note first = getBestQuote_first_success [of "exampleEnv (onlyTier 500 1000000) 6 0 0"
      "''0xA''" "''0xB''" 5 500 1000000 NoValidLiquidityPool]
  note none = getBestQuote_first_success [of "exampleEnv (onlyTier 0 0) 6 0 0"
      "''0xA''" "''0xB''" 5 500 1000000 NoValidLiquidityPool]
  have r3: "snd (getBestQuote (exampleEnv (onlyTier 10000 1000000) 6 0 0) ''0xA'' ''0xB'' 5)
              = Inr (10000, 1000000)"
    using third by (simp add: q feeTiers_def)
  have t3: "fst (getBestQuote (exampleEnv (onlyTier 10000 1000000) 6 0 0) ''0xA'' ''0xB'' 5)
     = [QuoteExactInputSingle ''0xA'' ''0xB'' 500 5 0, QuoteExactInputSingle ''0xA'' ''0xB'' 3000 5 0,
        QuoteExactInputSingle ''0xA'' ''0xB'' 10000 5 0]"
    using third r3 by (simp add: feeTiers_def)
  have r1: "snd (getBestQuote (exampleEnv (onlyTier 500 1000000) 6 0 0) ''0xA'' ''0xB'' 5)
              = Inr (500, 1000000)"
    using first by (simp add: q feeTiers_def)
  have t1: "fst (getBestQuote (exampleEnv (onlyTier 500 1000000) 6 0 0) ''0xA'' ''0xB'' 5)
     = [QuoteExactInputSingle ''0xA'' ''0xB'' 500 5 0]"
    using first r1 by (simp add: feeTiers_def)
  have r0: "snd (getBestQuote (exampleEnv (onlyTier 0 0) 6 0 0) ''0xA'' ''0xB'' 5)
     = Inl NoValidLiquidityPool"
    using none by (simp add: q feeTiers_def)
  from r3 t3 r1 t1 r0 show ?thesis by simp
qed

section \<open>Amount normalizer: claim C7\<close>

lemma replicate_numeral: "replicate (numeral k) x = x # replicate (numeral k - 1) x"
  by (simp add: numeral_eq_Suc)

lemmas parse_eval = parseUnits_def matchesDecimal_def isDigit_def fromDecimal_def digitVal_def
  trimTrailingZeros_def Let_def replicate_numeral

lemma getTokenDecimals_weth:
  "toLowerCase addr = toLowerCase WETH_ADDRESS \<Longrightarrow> getTokenDecimals ev addr = ([], Inr 18)"
  by (simp add: getTokenDecimals_def ret_def)

lemma getTokenDecimals_other:
  "toLowerCase addr \<noteq> toLowerCase WETH_ADDRESS \<Longrightarrow>
   getTokenDecimals ev addr = ([Decimals addr], erc20_decimals ev addr)"
  by (simp add: getTokenDecimals_def perform_def)

lemma parseAmountIn_missing: "falsy amount \<Longrightarrow> parseAmountIn ev amount token = ([], Inl MissingAmountIn)"
  by (simp add: parseAmountIn_def lift_def)

lemma parseAmountIn_weth:
  "\<not> falsy amount \<Longrightarrow> toAddress token = Inr addr \<Longrightarrow>
   toLowerCase addr = toLowerCase WETH_ADDRESS \<Longrightarrow>
   parseAmountIn ev amount token = ([], parseUnits (the amount) 18)"
  by (simp add: parseAmountIn_def andThen_simps getTokenDecimals_weth) (simp add: lift_def)

lemma parseAmountIn_other:
  "\<not> falsy amount \<Longrightarrow> toAddress token = Inr addr \<Longrightarrow>
   toLowerCase addr \<noteq> toLowerCase WETH_ADDRESS \<Longrightarrow>
   parseAmountIn ev amount token =
     ([Decimals addr],
      case erc20_decimals ev addr of Inl e \<Rightarrow> Inl e | Inr d \<Rightarrow> parseUnits (the amount) d)"
  by (cases "erc20_decimals ev addr")
     (simp_all add: parseAmountIn_def andThen_simps getTokenDecimals_other lift_def)

lemma parseUnits_one: "parseUnits ''1'' 18 = Inr (10 ^ 18)"
  by (simp add: parse_eval)

lemma parseUnits_half: "parseUnits ''0.5'' 6 = Inr 500000"
  by (simp add: parse_eval)

text \<open>
  What \<open>parseUnits\<close> computes on a well-formed unsigned decimal: for a whole part \<open>w\<close>
  and a fraction \<open>f\<close> of at most \<open>d\<close> digits, the number \<open>w.f\<close> with its point moved
  \<open>d\<close> places to the right.
\<close>

lemma foldl_decimal:
  "foldl (\<lambda>a c. 10 * a + digitVal c) a ds
     = a * 10 ^ length ds + foldl (\<lambda>a c. 10 * a + digitVal c) 0 ds"
proof (induction ds arbitrary: a)
  case Nil
  show ?case by simp
next
  case (Cons c ds)
  show ?case
    using Cons.IH [of "10 * a + digitVal c"] Cons.IH [of "digitVal c"]
    by (simp add: algebra_simps)
qed

lemma fromDecimal_append:
  "fromDecimal (xs @ ys) = fromDecimal xs * 10 ^ length ys + fromDecimal ys"
  using foldl_decimal [of "fromDecimal xs" ys] by (simp add: fromDecimal_def)

lemma fromDecimal_zeros: "fromDecimal (replicate n CHR ''0'') = 0"
proof (induction n)
  case 0
  show ?case by (simp add: fromDecimal_def)
next
  case (Suc n)
  have "replicate (Suc n) CHR ''0'' = replicate n CHR ''0'' @ ''0''"
    by (simp add: replicate_append_same)
  then have "fromDecimal (replicate (Suc n) CHR ''0'')
               = fromDecimal (replicate n CHR ''0'') * 10 + fromDecimal ''0''"
    by (simp add: fromDecimal_append)
  with Suc show ?case by (simp add: fromDecimal_def digitVal_def)
qed

lemma takeWhile_replicate:
  "takeWhile (\<lambda>c. c = a) xs = replicate (length (takeWhile (\<lambda>c. c = a) xs)) a"
  by (induction xs) simp_all

lemma trimTrailingZeros_decomp:
  "ds = trimTrailingZeros ds
          @ replicate (length ds - length (trimTrailingZeros ds)) CHR ''0''"
proof -
  let ?P = "\<lambda>c. c = CHR ''0''"
  have "rev ds = takeWhile ?P (rev ds) @ dropWhile ?P (rev ds)"
    by simp
  then have "ds = rev (dropWhile ?P (rev ds)) @ rev (takeWhile ?P (rev ds))"
    by (metis rev_append rev_rev_ident)
  moreover have "rev (takeWhile ?P (rev ds)) = replicate (length (takeWhile ?P (rev ds))) CHR ''0''"
    by (subst takeWhile_replicate) simp
  moreover have "length (takeWhile ?P (rev ds)) = length ds - length (trimTrailingZeros ds)"
  proof -
    have "length (takeWhile ?P (rev ds)) + length (dropWhile ?P (rev ds)) = length ds"
      by (metis length_append length_rev takeWhile_dropWhile_id)
    then show ?thesis by (simp add: trimTrailingZeros_def)
  qed
  ultimately show ?thesis by (simp add: trimTrailingZeros_def)
qed

lemma length_trimTrailingZeros: "length (trimTrailingZeros ds) \<le> length ds"
  by (simp add: trimTrailingZeros_def length_dropWhile_le [of _ "rev ds", simplified])

lemma fromDecimal_trim:
  "fromDecimal ds
     = fromDecimal (trimTrailingZeros ds) * 10 ^ (length ds - length (trimTrailingZeros ds))"
proof -
  have "fromDecimal ds = fromDecimal (trimTrailingZeros ds
          @ replicate (length ds - length (trimTrailingZeros ds)) CHR ''0'')"
    using trimTrailingZeros_decomp [of ds] by simp
  then show ?thesis
    by (simp add: fromDecimal_append fromDecimal_zeros)
qed

lemma splitOn_no_sep: "sep \<notin> set s \<Longrightarrow> splitOn sep s = [s]"
  by (induction s) auto

lemma splitOn_at_sep: "sep \<notin> set w \<Longrightarrow> splitOn sep (w @ sep # r) = w # splitOn sep r"
  by (induction w) auto

lemma digit_not_point: "isDigit c \<Longrightarrow> c \<noteq> CHR ''.'' \<and> c \<noteq> CHR ''-''"
  by (auto simp: isDigit_def)


lemma fromDecimal_0: "fromDecimal ''0'' = 0"
  by (simp add: fromDecimal_def digitVal_def)

lemma fromDecimal_0_padded: "fromDecimal (''0'' @ replicate k CHR ''0'') = 0"
  using fromDecimal_append [of "''0''" "replicate k CHR ''0''"]
  by (simp add: fromDecimal_0 fromDecimal_zeros del: append.simps)

lemma fraction_value:
  assumes "length f \<le> d"
  shows "fromDecimal
           ((if trimTrailingZeros (if f = [] then ''0'' else f) = [] then ''0''
             else trimTrailingZeros (if f = [] then ''0'' else f))
            @ replicate
                (d - length (if trimTrailingZeros (if f = [] then ''0'' else f) = [] then ''0''
                             else trimTrailingZeros (if f = [] then ''0'' else f))) CHR ''0'')
         = fromDecimal f * 10 ^ (d - length f)"
proof (cases "trimTrailingZeros f = []")
  case True
  then have z: "fromDecimal f = 0"
    using fromDecimal_trim [of f] by (simp add: fromDecimal_def)
  have t0: "trimTrailingZeros ''0'' = []"
    by (simp add: trimTrailingZeros_def)
  have "trimTrailingZeros (if f = [] then ''0'' else f) = []"
    using True t0 by simp
  then show ?thesis
    using fromDecimal_0_padded [of "d - 1"] by (simp add: z)
next
  case False
  then have ne: "f \<noteq> []"
    by (auto simp: trimTrailingZeros_def)
  let ?t = "trimTrailingZeros f"
  have le: "length ?t \<le> length f"
    by (rule length_trimTrailingZeros)
  have "fromDecimal f * 10 ^ (d - length f)
          = fromDecimal ?t * (10 ^ (length f - length ?t) * 10 ^ (d - length f))"
    by (subst fromDecimal_trim) simp
  also have "10 ^ (length f - length ?t) * 10 ^ (d - length f) = (10::nat) ^ (d - length ?t)"
    using le assms by (simp add: power_add [symmetric])
  finally show ?thesis
    using False ne by (simp add: fromDecimal_append fromDecimal_zeros)
qed

lemma parseUnits_two_parts:
  assumes "matchesDecimal v" and "take 1 v \<noteq> ''-''" and "v \<noteq> ''.''"
    and "splitOn CHR ''.'' v = [w, f]" and "w \<noteq> []"
    and "length (trimTrailingZeros (if f = [] then ''0'' else f)) \<le> d"
  shows "parseUnits v d
           = Inr (int (fromDecimal w) * 10 ^ d
                  + int (fromDecimal
                      ((if trimTrailingZeros (if f = [] then ''0'' else f) = [] then ''0''
                        else trimTrailingZeros (if f = [] then ''0'' else f))
                       @ replicate
                           (d - length (if trimTrailingZeros (if f = [] then ''0'' else f) = []
                                        then ''0''
                                        else trimTrailingZeros (if f = [] then ''0'' else f)))
                           CHR ''0'')))"
  using assms by (cases "f = []") (simp_all add: parseUnits_def Let_def)

lemma parseUnits_one_part:
  assumes "matchesDecimal v" and "take 1 v \<noteq> ''-''" and "v \<noteq> ''.''"
    and "splitOn CHR ''.'' v = [w]" and "w \<noteq> []"
  shows "parseUnits v d
           = Inr (int (fromDecimal w) * 10 ^ d
                  + int (fromDecimal (''0'' @ replicate (d - 1) CHR ''0'')))"
proof -
  have "trimTrailingZeros ''0'' = []"
    by (simp add: trimTrailingZeros_def)
  with assms show ?thesis
    by (simp add: parseUnits_def Let_def)
qed

lemma parseUnits_shifts_point:
  assumes "w \<noteq> []" and "list_all isDigit w" and "list_all isDigit f" and "length f \<le> d"
  shows "parseUnits (w @ ''.'' @ f) d
           = Inr (int (fromDecimal w) * 10 ^ d + int (fromDecimal f * 10 ^ (d - length f)))"
proof -
  have nw: "CHR ''.'' \<notin> set w" and nf: "CHR ''.'' \<notin> set f"
    using assms(2,3) digit_not_point by (auto simp: list_all_iff)
  obtain c cs where w: "w = c # cs"
    using assms(1) by (cases w) auto
  have c: "c \<noteq> CHR ''-''"
    using assms(2) digit_not_point by (auto simp: w)
  have m: "matchesDecimal (w @ ''.'' @ f)"
    using assms(2,3) c by (auto simp: matchesDecimal_def w list_all_iff)
  have t: "take 1 (w @ ''.'' @ f) \<noteq> ''-''"
    using c by (simp add: w)
  have p: "w @ ''.'' @ f \<noteq> ''.''"
    by (simp add: w)
  have sp: "splitOn CHR ''.'' (w @ ''.'' @ f) = [w, f]"
    using splitOn_at_sep [OF nw, of f] splitOn_no_sep [OF nf] by simp
  have lt: "length (trimTrailingZeros (if f = [] then ''0'' else f)) \<le> d"
  proof (cases "f = []")
    case True
    then show ?thesis by (simp add: trimTrailingZeros_def)
  next
    case False
    then show ?thesis
      using length_trimTrailingZeros [of f] assms(4) by simp
  qed
  show ?thesis
    unfolding parseUnits_two_parts [OF m t p sp assms(1) lt] fraction_value [OF assms(4)]
    by simp
qed

lemma parseUnits_integer:
  assumes "w \<noteq> []" and "list_all isDigit w"
  shows "parseUnits w d = Inr (int (fromDecimal w) * 10 ^ d)"
proof -
  have nw: "CHR ''.'' \<notin> set w"
    using assms(2) digit_not_point by (auto simp: list_all_iff)
  obtain c cs where w: "w = c # cs"
    using assms(1) by (cases w) auto
  have c: "c \<noteq> CHR ''-'' \<and> c \<noteq> CHR ''.''"
    using assms(2) digit_not_point by (auto simp: w)
  have m: "matchesDecimal w"
    using assms(2) c by (auto simp: matchesDecimal_def w list_all_iff)
  have t: "take 1 w \<noteq> ''-''"
    using c by (simp add: w)
  have p: "w \<noteq> ''.''"
    using c by (simp add: w)
  show ?thesis
    unfolding parseUnits_one_part [OF m t p splitOn_no_sep [OF nw] assms(1)]
      fromDecimal_0_padded
    by simp
qed

text \<open>
  Claim C7. \<open>parseAmountIn\<close> throws \<open>Error("Missing amountIn")\<close> for a missing or empty
  amount. Otherwise it resolves the token and converts the amount with \<open>parseUnits\<close>: with
  the constant 18 and no call when the token resolves to WETH, with the answer of one
  \<open>decimals()\<close> call on the token otherwise. \<open>parseUnits\<close> moves the decimal point
  of \<open>w.f\<close> to the right by the number of decimals. So \<open>1\<close> of the native alias is
  \<open>10^18\<close> and \<open>0.5\<close> of a token with 6 decimals is \<open>500000\<close>.
\<close>

theorem parseAmountIn_decimals:
  "(falsy amount \<longrightarrow> parseAmountIn ev amount token = ([], Inl MissingAmountIn))
   \<and> (\<not> falsy amount \<and> toAddress token = Inr addr
        \<and> toLowerCase addr = toLowerCase WETH_ADDRESS
      \<longrightarrow> parseAmountIn ev amount token = ([], parseUnits (the amount) 18))
   \<and> (\<not> falsy amount \<and> toAddress token = Inr addr
        \<and> toLowerCase addr \<noteq> toLowerCase WETH_ADDRESS \<and> erc20_decimals ev addr = Inr d
      \<longrightarrow> parseAmountIn ev amount token = ([Decimals addr], parseUnits (the amount) d))
   \<and> (w \<noteq> [] \<and> list_all isDigit w \<and> list_all isDigit f \<and> length f \<le> d
      \<longrightarrow> parseUnits (w @ ''.'' @ f) d
            = Inr (int (fromDecimal w) * 10 ^ d + int (fromDecimal f * 10 ^ (d - length f))))
   \<and> (toLowerCase tokenName = ''eth''
      \<longrightarrow> parseAmountIn ev (Some ''1'') (Some tokenName) = ([], Inr (10 ^ 18)))
   \<and> (toAddress token = Inr addr \<and> toLowerCase addr \<noteq> toLowerCase WETH_ADDRESS
        \<and> erc20_decimals ev addr = Inr 6
      \<longrightarrow> parseAmountIn ev (Some ''0.5'') token = ([Decimals addr], Inr 500000))"
proof -
  have native: "parseAmountIn ev (Some ''1'') (Some tokenName) = ([], Inr (10 ^ 18))"
    if "toLowerCase tokenName = ''eth''"
  proof -
    from that have "tokenName \<noteq> []" by (auto simp: toLowerCase_def)
    with that have "toAddress (Some tokenName) = Inr WETH_ADDRESS"
      by (simp add: toAddress_Some)
    then show ?thesis
      using parseAmountIn_weth [of "Some ''1''" "Some tokenName" WETH_ADDRESS ev]
      by (simp add: falsy_def parseUnits_one)
  qed
  have six: "parseAmountIn ev (Some ''0.5'') token = ([Decimals addr], Inr 500000)"
    if "toAddress token = Inr addr" "toLowerCase addr \<noteq> toLowerCase WETH_ADDRESS"
      "erc20_decimals ev addr = Inr 6"
    using parseAmountIn_other [of "Some ''0.5''" token addr ev] that
    by (simp add: falsy_def parseUnits_half)
  have shift: "parseUnits (w @ ''.'' @ f) d
            = Inr (int (fromDecimal w) * 10 ^ d + int (fromDecimal f * 10 ^ (d - length f)))"
    if "w \<noteq> []" "list_all isDigit w" "list_all isDigit f" "length f \<le> d"
    using that by (rule parseUnits_shifts_point)
  have route: "(falsy amount \<longrightarrow> parseAmountIn ev amount token = ([], Inl MissingAmountIn))
   \<and> (\<not> falsy amount \<and> toAddress token = Inr addr
        \<and> toLowerCase addr = toLowerCase WETH_ADDRESS
      \<longrightarrow> parseAmountIn ev amount token = ([], parseUnits (the amount) 18))
   \<and> (\<not> falsy amount \<and> toAddress token = Inr addr
        \<and> toLowerCase addr \<noteq> toLowerCase WETH_ADDRESS \<and> erc20_decimals ev addr = Inr d
      \<longrightarrow> parseAmountIn ev amount token = ([Decimals addr], parseUnits (the amount) d))"
    by (simp add: parseAmountIn_missing parseAmountIn_weth parseAmountIn_other)
  from route shift native six show ?thesis by blast
qed

theorem parseAmountIn_decimals_witness:
  "parseAmountIn (exampleEnv (onlyTier 0 0) 6 0 0) (Some []) (Some ''0xTOKEN'')
     = ([], Inl MissingAmountIn)
   \<and> parseAmountIn (exampleEnv (onlyTier 0 0) 6 0 0) (Some ''1'') (Some ''ETH'') = ([], Inr (10 ^ 18))
   \<and> parseAmountIn (exampleEnv (onlyTier 0 0) 6 0 0) (Some ''0.5'') (Some ''0xTOKEN'')
       = ([Decimals ''0xTOKEN''], Inr 500000)
   \<and> parseUnits ''0.5'' 6 = Inr 500000"
proof -
  have a: "toAddress (Some ''0xTOKEN'') = Inr ''0xTOKEN''"
    by (simp add: toAddress_Some toLowerCase_def toLowerChar_def)
  have b: "toLowerCase ''0xTOKEN'' \<noteq> toLowerCase WETH_ADDRESS"
    by (simp add: toLowerCase_def toLowerChar_def WETH_ADDRESS_def)
  have c: "erc20_decimals (exampleEnv (onlyTier 0 0) 6 0 0) ''0xTOKEN'' = Inr 6"
    by (simp add: exampleEnv_def)
  have d: "toLowerCase ''ETH'' = ''eth''"
    by (simp add: toLowerCase_def toLowerChar_def)
  show ?thesis
    using parseAmountIn_decimals [of "Some []" "exampleEnv (onlyTier 0 0) 6 0 0" "Some ''0xTOKEN''"
        "''0xTOKEN''" 6 "''0''" "''5''" "''ETH''"] a b c d
    by (simp add: falsy_def isDigit_def fromDecimal_def digitVal_def)
qed


section \<open>Quote handler: claim C8\<close>

lemma andThen_Inr_cases:
  assumes "andThen m f = (cs, Inr y)"
  obtains cs1 x cs2 where "m = (cs1, Inr x)" "f x = (cs2, Inr y)" "cs = cs1 @ cs2"
  using assms by (auto simp: andThen_def split: prod.splits sum.splits)

lemma toAddress_Inr_not_falsy: "toAddress t = Inr a \<Longrightarrow> \<not> falsy t"
  by (auto simp: toAddress_def)

lemma catch500_Inr: "catch500 (cs, Inr r) = (cs, r)"
  by (simp add: catch500_def)

lemma catch500_Inl: "catch500 (cs, Inl e) = (cs, \<lparr> status = 500, body = ErrorThrown e \<rparr>)"
  by (simp add: catch500_def)

lemma quote_present:
  "\<not> falsy (body_amountIn req) \<Longrightarrow> \<not> falsy (body_tokenIn req) \<Longrightarrow>
   \<not> falsy (body_tokenOut req) \<Longrightarrow> quote ev req = catch500 (quoteTry ev req)"
  by (simp add: quote_def)

lemma quoteTry_success:
  assumes "toAddress (body_tokenIn req) = Inr tin" and "toAddress (body_tokenOut req) = Inr tout"
    and "parseAmountIn ev (body_amountIn req) (body_tokenIn req) = (cs1, Inr amt)"
    and "getBestQuote ev tin tout amt = (cs2, Inr (fee, out))"
    and "getTokenDecimals ev tout = (cs3, Inr d)"
  shows "quoteTry ev req =
           (cs1 @ cs2 @ cs3,
            Inr \<lparr> status = 200,
                  body = Quote fee (formatUnits out d) (BigNumber_toString out) \<rparr>)"
  using assms by (simp add: quoteTry_def andThen_simps ret_def)

text \<open>
  Claim C8, amended. On success the quote handler answers 200 with the selected fee tier,
  the output formatted by \<open>formatUnits\<close> with the decimals of the output token (18
  without a call for WETH, the token's \<open>decimals()\<close> otherwise) and the raw output as a
  decimal numeral.
\<close>

theorem quote_success_response:
  assumes "\<not> falsy (body_amountIn req)"
    and "toAddress (body_tokenIn req) = Inr tin" and "toAddress (body_tokenOut req) = Inr tout"
    and "parseAmountIn ev (body_amountIn req) (body_tokenIn req) = (cs1, Inr amt)"
    and "getBestQuote ev tin tout amt = (cs2, Inr (fee, out))"
    and "getTokenDecimals ev tout = (cs3, Inr d)"
  shows "quote ev req =
           (cs1 @ cs2 @ cs3,
            \<lparr> status = 200,
              body = Quote fee (formatUnits out d) (BigNumber_toString out) \<rparr>)
         \<and> (toLowerCase tout = toLowerCase WETH_ADDRESS \<longrightarrow> d = 18 \<and> cs3 = [])
         \<and> (toLowerCase tout \<noteq> toLowerCase WETH_ADDRESS
              \<longrightarrow> erc20_decimals ev tout = Inr d \<and> cs3 = [Decimals tout])"
proof -
  have "quote ev req = catch500 (quoteTry ev req)"
    using assms(1-3) by (simp add: quote_present toAddress_Inr_not_falsy)
  then have "quote ev req =
           (cs1 @ cs2 @ cs3,
            \<lparr> status = 200,
              body = Quote fee (formatUnits out d) (BigNumber_toString out) \<rparr>)"
    by (simp add: quoteTry_success [OF assms(2-6)] catch500_Inr)
  moreover have "toLowerCase tout = toLowerCase WETH_ADDRESS \<longrightarrow> d = 18 \<and> cs3 = []"
    using assms(6) by (auto simp: getTokenDecimals_weth)
  moreover have "toLowerCase tout \<noteq> toLowerCase WETH_ADDRESS
              \<longrightarrow> erc20_decimals ev tout = Inr d \<and> cs3 = [Decimals tout]"
    using assms(6) by (auto simp: getTokenDecimals_other)
  ultimately show ?thesis by blast
qed


lemma exampleRequest_fields:
  "hdr_authorization (exampleRequest amount tin tout) = Some ''0xKEY''"
  "body_amountIn (exampleRequest amount tin tout) = Some amount"
  "body_tokenIn (exampleRequest amount tin tout) = Some tin"
  "body_tokenOut (exampleRequest amount tin tout) = Some tout"
  by (simp_all add: exampleRequest_def)

lemma exampleEnv_fields:
  "wallet_of (exampleEnv q d b a) key = Inr ''0xSIGNER''"
  "erc20_decimals (exampleEnv q d b a) token = Inr d"
  "erc20_balanceOf (exampleEnv q d b a) token owner = Inr b"
  "erc20_allowance (exampleEnv q d b a) token owner spender = Inr a"
  "erc20_approve (exampleEnv q d b a) token spender amount = Inr ''0xAPPROVAL''"
  "quoter_quoteExactInputSingle (exampleEnv q d b a) tin tout fee amount limit = q fee"
  "router_exactInputSingle (exampleEnv q d b a) params gas val = Inr ''0xSWAP''"
  "tx_wait (exampleEnv q d b a) h = Inr h"
  "date_now (exampleEnv q d b a) = 0"
  by (simp_all add: exampleEnv_def)

lemma toAddress_eth: "toAddress (Some ''eth'') = Inr WETH_ADDRESS"
  by (simp add: toAddress_Some toLowerCase_eth)

lemma toAddress_0xTOKEN: "toAddress (Some ''0xTOKEN'') = Inr ''0xTOKEN''"
  by (simp add: toAddress_Some toLowerCase_def toLowerChar_def)

lemma not_weth_0xTOKEN: "toLowerCase ''0xTOKEN'' \<noteq> toLowerCase WETH_ADDRESS"
  by (simp add: toLowerCase_def toLowerChar_def WETH_ADDRESS_def)

lemma parseUnits_ten: "parseUnits ''10'' 18 = Inr 10000000000000000000"
  by (simp add: parse_eval)

lemma parseAmountIn_ten_eth: "parseAmountIn ev (Some ''10'') (Some ''eth'') = ([], Inr 10000000000000000000)"
  using parseAmountIn_weth [of "Some ''10''" "Some ''eth''" WETH_ADDRESS ev]
  by (simp add: falsy_def toAddress_eth parseUnits_ten)

lemmas format_eval = formatUnits_def BigNumber_toString_def digitChar_def trimTrailingZeros_def
  Let_def toDecimal_digit toDecimal_step replicate_numeral

lemma formatUnits_example: "formatUnits 5000000000 8 = ''50.0''"
  by (simp add: format_eval)

lemma toString_example: "BigNumber_toString 5000000000 = ''5000000000''"
  by (simp add: format_eval)

lemma getBestQuote_example:
  "getBestQuote (exampleEnv (onlyTier 3000 5000000000) d b a) tin tout amt
     = ([QuoteExactInputSingle tin tout 500 amt 0, QuoteExactInputSingle tin tout 3000 amt 0],
        Inr (3000, 5000000000))"
  by (simp add: getBestQuote_cases exampleEnv_fields onlyTier_def)

text \<open>
  The scenario of the specification: \<open>10\<close> of the native alias against a token with 8
  decimals, the quoter throwing for tier 500 and answering \<open>5000000000\<close> for tier 3000.
  The formatted amount is \<open>50.0\<close>: \<open>formatUnits\<close> always writes a fractional part.
\<close>

theorem quote_success_response_witness:
  "quote (exampleEnv (onlyTier 3000 5000000000) 8 0 0) (exampleRequest ''10'' ''eth'' ''0xTOKEN'')
     = ([QuoteExactInputSingle WETH_ADDRESS ''0xTOKEN'' 500 10000000000000000000 0,
         QuoteExactInputSingle WETH_ADDRESS ''0xTOKEN'' 3000 10000000000000000000 0,
         Decimals ''0xTOKEN''],
        \<lparr> status = 200, body = Quote 3000 ''50.0'' ''5000000000'' \<rparr>)"
proof -
  let ?E = "exampleEnv (onlyTier 3000 5000000000) 8 0 0"
  let ?R = "exampleRequest ''10'' ''eth'' ''0xTOKEN''"
  have 1: "\<not> falsy (body_amountIn ?R)"
    by (simp add: exampleRequest_fields falsy_def)
  have 2: "toAddress (body_tokenIn ?R) = Inr WETH_ADDRESS"
    by (simp add: exampleRequest_fields toAddress_eth)
  have 3: "toAddress (body_tokenOut ?R) = Inr ''0xTOKEN''"
    by (simp add: exampleRequest_fields toAddress_0xTOKEN)
  have 4: "parseAmountIn ?E (body_amountIn ?R) (body_tokenIn ?R) = ([], Inr 10000000000000000000)"
    by (simp add: exampleRequest_fields parseAmountIn_ten_eth)
  have 5: "getBestQuote ?E WETH_ADDRESS ''0xTOKEN'' 10000000000000000000
             = ([QuoteExactInputSingle WETH_ADDRESS ''0xTOKEN'' 500 10000000000000000000 0,
                 QuoteExactInputSingle WETH_ADDRESS ''0xTOKEN'' 3000 10000000000000000000 0],
                Inr (3000, 5000000000))"
    by (rule getBestQuote_example)
  have 6: "getTokenDecimals ?E ''0xTOKEN'' = ([Decimals ''0xTOKEN''], Inr 8)"
    by (simp add: getTokenDecimals_other not_weth_0xTOKEN exampleEnv_fields)
  show ?thesis
    using quote_success_response [OF 1 2 3 4 5 6]
    by (simp add: formatUnits_example toString_example)
qed

lemma quote_example:
  "quote (exampleEnv (onlyTier 3000 5000000000) 8 0 0) (exampleRequest ''10'' ''eth'' ''0xTOKEN'')
     = ([QuoteExactInputSingle WETH_ADDRESS ''0xTOKEN'' 500 10000000000000000000 0,
         QuoteExactInputSingle WETH_ADDRESS ''0xTOKEN'' 3000 10000000000000000000 0,
         Decimals ''0xTOKEN''],
        \<lparr> status = 200, body = Quote 3000 ''50.0'' ''5000000000'' \<rparr>)"
proof -
  let ?E = "exampleEnv (onlyTier 3000 5000000000) 8 0 0"
  let ?R = "exampleRequest ''10'' ''eth'' ''0xTOKEN''"
  have "quoteTry ?E ?R =
          ([] @ [QuoteExactInputSingle WETH_ADDRESS ''0xTOKEN'' 500 10000000000000000000 0,
                 QuoteExactInputSingle WETH_ADDRESS ''0xTOKEN'' 3000 10000000000000000000 0]
              @ [Decimals ''0xTOKEN''],
           Inr \<lparr> status = 200,
                 body = Quote 3000 (formatUnits 5000000000 8) (BigNumber_toString 5000000000) \<rparr>)"
  proof (rule quoteTry_success)
    show "toAddress (body_tokenIn ?R) = Inr WETH_ADDRESS"
      by (simp add: exampleRequest_fields toAddress_eth)
    show "toAddress (body_tokenOut ?R) = Inr ''0xTOKEN''"
      by (simp add: exampleRequest_fields toAddress_0xTOKEN)
    show "parseAmountIn ?E (body_amountIn ?R) (body_tokenIn ?R) = ([], Inr 10000000000000000000)"
      by (simp add: exampleRequest_fields parseAmountIn_ten_eth)
    show "getBestQuote ?E WETH_ADDRESS ''0xTOKEN'' 10000000000000000000
             = ([QuoteExactInputSingle WETH_ADDRESS ''0xTOKEN'' 500 10000000000000000000 0,
                 QuoteExactInputSingle WETH_ADDRESS ''0xTOKEN'' 3000 10000000000000000000 0],
                Inr (3000, 5000000000))"
      by (rule getBestQuote_example)
    show "getTokenDecimals ?E ''0xTOKEN'' = ([Decimals ''0xTOKEN''], Inr 8)"
      by (simp add: getTokenDecimals_other not_weth_0xTOKEN exampleEnv_fields)
  qed
  then show ?thesis
    by (simp add: quote_def exampleRequest_fields falsy_def catch500_Inr formatUnits_example
        toString_example)
qed

text \<open>
  Counterexample to claim C8 as stated, which gives \<open>amountOut: "50"\<close> for this
  scenario: the handler answers \<open>"50.0"\<close>.
\<close>

theorem quote_example_not_50:
  "body (snd (quote (exampleEnv (onlyTier 3000 5000000000) 8 0 0)
                (exampleRequest ''10'' ''eth'' ''0xTOKEN'')))
     = Quote 3000 ''50.0'' ''5000000000''
   \<and> body (snd (quote (exampleEnv (onlyTier 3000 5000000000) 8 0 0)
                (exampleRequest ''10'' ''eth'' ''0xTOKEN'')))
     \<noteq> Quote 3000 ''50'' ''5000000000''"
  by (simp add: quote_example)

section \<open>Swap handler: claims C5 and C4\<close>

lemma swap_present:
  "\<not> falsy (hdr_authorization req) \<Longrightarrow> \<not> falsy (body_amountIn req) \<Longrightarrow>
   \<not> falsy (body_tokenIn req) \<Longrightarrow> \<not> falsy (body_tokenOut req) \<Longrightarrow>
   swap ev req = catch500 (swapTry ev req)"
  by (simp add: swap_def)

lemma swapTry_to_balance:
  assumes "wallet_of ev (the (hdr_authorization req)) = Inr w"
    and "toAddress (body_tokenIn req) = Inr tin" and "toAddress (body_tokenOut req) = Inr tout"
    and "parseAmountIn ev (body_amountIn req) (body_tokenIn req) = (cs, Inr amt)"
    and "erc20_balanceOf ev tin w = Inr bal"
  shows "swapTry ev req =
          (if bal < amt
           then (cs @ [BalanceOf tin w],
                 Inr \<lparr> status = 400, body = ErrorMessage ''Insufficient token balance.'' \<rparr>)
           else (cs @ BalanceOf tin w
                   # fst (andThen (ensureAllowance ev tin w amt)
                            (\<lambda>u. quoteAndSubmit ev w tin tout amt)),
                 snd (andThen (ensureAllowance ev tin w amt)
                        (\<lambda>u. quoteAndSubmit ev w tin tout amt))))"
  using assms by (simp add: swapTry_def andThen_simps ret_def)

lemma parseAmountIn_trace:
  assumes "toAddress token = Inr addr"
  shows "fst (parseAmountIn ev amount token) = [] \<or> fst (parseAmountIn ev amount token) = [Decimals addr]"
proof (cases "falsy amount")
  case True
  then show ?thesis by (simp add: parseAmountIn_missing)
next
  case False
  show ?thesis
  proof (cases "toLowerCase addr = toLowerCase WETH_ADDRESS")
    case True
    with False assms show ?thesis by (simp add: parseAmountIn_weth)
  next
    case False
    with \<open>\<not> falsy amount\<close> assms show ?thesis by (simp add: parseAmountIn_other)
  qed
qed

text \<open>
  Claim C5. When the request is complete, the signer and both tokens resolve, the amount
  is normalized and the balance read answers less than the normalized amount, the swap
  handler answers 400 with the message \<open>Insufficient token balance.\<close>, and the only
  calls it has made are the \<open>decimals()\<close> call of the normalizer, if any, and the balance
  read: no allowance read, no approval, no quote, no submission, no wait.
\<close>

theorem insufficient_balance_stops_pipeline:
  assumes "\<not> falsy (hdr_authorization req)" and "\<not> falsy (body_amountIn req)"
    and "wallet_of ev (the (hdr_authorization req)) = Inr w"
    and "toAddress (body_tokenIn req) = Inr tin" and "toAddress (body_tokenOut req) = Inr tout"
    and "parseAmountIn ev (body_amountIn req) (body_tokenIn req) = (cs, Inr amt)"
    and "erc20_balanceOf ev tin w = Inr bal" and "bal < amt"
  shows "swap ev req =
           (cs @ [BalanceOf tin w],
            \<lparr> status = 400, body = ErrorMessage ''Insufficient token balance.'' \<rparr>)
         \<and> (\<forall>c \<in> set (fst (swap ev req)). c = Decimals tin \<or> c = BalanceOf tin w)"
proof -
  have "swap ev req = catch500 (swapTry ev req)"
    using assms(1,2,4,5) by (simp add: swap_present toAddress_Inr_not_falsy)
  then have r: "swap ev req =
           (cs @ [BalanceOf tin w],
            \<lparr> status = 400, body = ErrorMessage ''Insufficient token balance.'' \<rparr>)"
    using swapTry_to_balance [OF assms(3-7)] assms(8) by (simp add: catch500_Inr)
  have "cs = [] \<or> cs = [Decimals tin]"
    using parseAmountIn_trace [OF assms(4), of ev "body_amountIn req"] assms(6) by simp
  with r show ?thesis by auto
qed

lemma swapTry_example_insufficient:
  "swapTry (exampleEnv q 8 0 0) (exampleRequest ''10'' ''eth'' ''0xTOKEN'')
     = ([BalanceOf WETH_ADDRESS ''0xSIGNER''],
        Inr \<lparr> status = 400, body = ErrorMessage ''Insufficient token balance.'' \<rparr>)"
  using swapTry_to_balance [of "exampleEnv q 8 0 0" "exampleRequest ''10'' ''eth'' ''0xTOKEN''"
      "''0xSIGNER''" WETH_ADDRESS "''0xTOKEN''" "[]" 10000000000000000000 0]
  by (simp add: exampleEnv_fields exampleRequest_fields toAddress_eth toAddress_0xTOKEN
      parseAmountIn_ten_eth)

theorem insufficient_balance_stops_pipeline_witness:
  "swap (exampleEnv (onlyTier 3000 5000000000) 8 0 0) (exampleRequest ''10'' ''eth'' ''0xTOKEN'')
     = ([BalanceOf WETH_ADDRESS ''0xSIGNER''],
        \<lparr> status = 400, body = ErrorMessage ''Insufficient token balance.'' \<rparr>)"
proof -
  let ?E = "exampleEnv (onlyTier 3000 5000000000) 8 0 0"
  let ?R = "exampleRequest ''10'' ''eth'' ''0xTOKEN''"
  have 1: "\<not> falsy (hdr_authorization ?R)" and 2: "\<not> falsy (body_amountIn ?R)"
    by (simp_all add: exampleRequest_fields falsy_def)
  have 3: "wallet_of ?E (the (hdr_authorization ?R)) = Inr ''0xSIGNER''"
    by (simp add: exampleEnv_fields)
  have 4: "toAddress (body_tokenIn ?R) = Inr WETH_ADDRESS"
    by (simp add: exampleRequest_fields toAddress_eth)
  have 5: "toAddress (body_tokenOut ?R) = Inr ''0xTOKEN''"
    by (simp add: exampleRequest_fields toAddress_0xTOKEN)
  have 6: "parseAmountIn ?E (body_amountIn ?R) (body_tokenIn ?R) = ([], Inr 10000000000000000000)"
    by (simp add: exampleRequest_fields parseAmountIn_ten_eth)
  have 7: "erc20_balanceOf ?E WETH_ADDRESS ''0xSIGNER'' = Inr 0"
    by (simp add: exampleEnv_fields)
  have 8: "(0::int) < 10000000000000000000" by simp
  show ?thesis
    using insufficient_balance_stops_pipeline [OF 1 2 3 4 5 6 7 8] by simp
qed

lemma quoteAndSubmit_Inr:
  assumes "quoteAndSubmit ev w tin tout amt = (cs, Inr r)"
  shows "\<exists>h. r = \<lparr> status = 200, body = TransactionHash h \<rparr>"
proof -
  from assms obtain cs1 q cs2 where
    "(case q of (fee, amountOut) \<Rightarrow>
        andThen (lift (amountOutMinimum amountOut (calculateSlippage tin tout))) (\<lambda>minimumOut.
          let params = \<lparr> sp_tokenIn = tin, sp_tokenOut = tout, sp_fee = fee, sp_recipient = w,
                           sp_deadline = date_now ev div 1000 + 300, sp_amountIn = amt,
                           sp_amountOutMinimum = minimumOut, sp_sqrtPriceLimitX96 = 0 \<rparr>
          in andThen (perform (ExactInputSingle params MAX_GAS_LIMIT 0)
                        (router_exactInputSingle ev params MAX_GAS_LIMIT 0)) (\<lambda>swapTx.
             andThen (perform (Wait swapTx) (tx_wait ev swapTx)) (\<lambda>transactionHash.
             ret \<lparr> status = 200, body = TransactionHash transactionHash \<rparr>)))) = (cs2, Inr r)"
    unfolding quoteAndSubmit_def by (rule andThen_Inr_cases)
  then show ?thesis
    by (cases q) (auto simp: Let_def ret_def elim!: andThen_Inr_cases)
qed

lemma swapTry_Inr:
  assumes "swapTry ev req = (cs, Inr r)"
  shows "r = \<lparr> status = 400, body = ErrorMessage ''Insufficient token balance.'' \<rparr>
         \<or> (\<exists>h. r = \<lparr> status = 200, body = TransactionHash h \<rparr>)"
  using assms unfolding swapTry_def
  by (auto simp: ret_def elim!: andThen_Inr_cases dest!: quoteAndSubmit_Inr split: if_splits)


lemma not_usdt_0xTOKEN: "toLowerCase ''0xTOKEN'' \<noteq> ''usdt''"
  by (simp add: toLowerCase_def toLowerChar_def)

lemma ensureAllowance_example_approves:
  "a < amt \<Longrightarrow>
   ensureAllowance (exampleEnv q d b a) tin w amt
     = ([Allowance tin w UNISWAP_V3_ROUTER_ADDRESS,
         Approve tin UNISWAP_V3_ROUTER_ADDRESS MaxUint256, Wait ''0xAPPROVAL''], Inr ())"
  by (simp add: ensureAllowance_def andThen_simps exampleEnv_fields ret_def)

lemma ensureAllowance_example_enough:
  "\<not> a < amt \<Longrightarrow>
   ensureAllowance (exampleEnv q d b a) tin w amt
     = ([Allowance tin w UNISWAP_V3_ROUTER_ADDRESS], Inr ())"
  by (simp add: ensureAllowance_def andThen_simps exampleEnv_fields ret_def)

lemma quoteAndSubmit_example:
  "quoteAndSubmit (exampleEnv (onlyTier 3000 5000000000) d b a) w WETH_ADDRESS ''0xTOKEN'' amt
     = ([QuoteExactInputSingle WETH_ADDRESS ''0xTOKEN'' 500 amt 0,
         QuoteExactInputSingle WETH_ADDRESS ''0xTOKEN'' 3000 amt 0,
         ExactInputSingle
           \<lparr> sp_tokenIn = WETH_ADDRESS, sp_tokenOut = ''0xTOKEN'', sp_fee = 3000,
             sp_recipient = w, sp_deadline = 300, sp_amountIn = amt,
             sp_amountOutMinimum = 4950000000, sp_sqrtPriceLimitX96 = 0 \<rparr> MAX_GAS_LIMIT 0,
         Wait ''0xSWAP''],
        Inr \<lparr> status = 200, body = TransactionHash ''0xSWAP'' \<rparr>)"
proof -
  have s: "calculateSlippage WETH_ADDRESS ''0xTOKEN'' = min (BASE_SLIPPAGE * 2) MAX_SLIPPAGE"
    by (simp add: calculateSlippage_def not_usdt_0xTOKEN)
  have m: "amountOutMinimum 5000000000 (calculateSlippage WETH_ADDRESS ''0xTOKEN'') = Inr 4950000000"
    by (simp add: s amountOutMinimum_one_percent signed_divide_int_def)
  show ?thesis
    by (simp add: quoteAndSubmit_def getBestQuote_example m andThen_simps exampleEnv_fields
        ret_def Let_def)
qed

lemma quoteAndSubmit_example_no_liquidity:
  "quoteAndSubmit (exampleEnv (onlyTier 0 0) d b a) w tin tout amt
     = ([QuoteExactInputSingle tin tout 500 amt 0, QuoteExactInputSingle tin tout 3000 amt 0,
         QuoteExactInputSingle tin tout 10000 amt 0], Inl NoValidLiquidityPool)"
  by (simp add: quoteAndSubmit_def getBestQuote_cases exampleEnv_fields onlyTier_def andThen_simps)


lemma swapTry_example_success:
  "swapTry (exampleEnv (onlyTier 3000 5000000000) 8 10000000000000000000 0)
     (exampleRequest ''10'' ''eth'' ''0xTOKEN'')
   = ([BalanceOf WETH_ADDRESS ''0xSIGNER'',
       Allowance WETH_ADDRESS ''0xSIGNER'' UNISWAP_V3_ROUTER_ADDRESS,
       Approve WETH_ADDRESS UNISWAP_V3_ROUTER_ADDRESS MaxUint256, Wait ''0xAPPROVAL'',
       QuoteExactInputSingle WETH_ADDRESS ''0xTOKEN'' 500 10000000000000000000 0,
       QuoteExactInputSingle WETH_ADDRESS ''0xTOKEN'' 3000 10000000000000000000 0,
       ExactInputSingle
         \<lparr> sp_tokenIn = WETH_ADDRESS, sp_tokenOut = ''0xTOKEN'', sp_fee = 3000,
           sp_recipient = ''0xSIGNER'', sp_deadline = 300, sp_amountIn = 10000000000000000000,
           sp_amountOutMinimum = 4950000000, sp_sqrtPriceLimitX96 = 0 \<rparr> MAX_GAS_LIMIT 0,
       Wait ''0xSWAP''],
      Inr \<lparr> status = 200, body = TransactionHash ''0xSWAP'' \<rparr>)"
  using swapTry_to_balance [of "exampleEnv (onlyTier 3000 5000000000) 8 10000000000000000000 0"
      "exampleRequest ''10'' ''eth'' ''0xTOKEN''" "''0xSIGNER''" WETH_ADDRESS "''0xTOKEN''" "[]"
      10000000000000000000 10000000000000000000]
  by (simp add: exampleEnv_fields exampleRequest_fields toAddress_eth toAddress_0xTOKEN
      parseAmountIn_ten_eth ensureAllowance_example_approves quoteAndSubmit_example andThen_simps)

lemma swapTry_example_no_liquidity:
  "swapTry (exampleEnv (onlyTier 0 0) 8 10000000000000000000 10000000000000000000)
     (exampleRequest ''10'' ''eth'' ''0xTOKEN'')
   = ([BalanceOf WETH_ADDRESS ''0xSIGNER'',
       Allowance WETH_ADDRESS ''0xSIGNER'' UNISWAP_V3_ROUTER_ADDRESS,
       QuoteExactInputSingle WETH_ADDRESS ''0xTOKEN'' 500 10000000000000000000 0,
       QuoteExactInputSingle WETH_ADDRESS ''0xTOKEN'' 3000 10000000000000000000 0,
       QuoteExactInputSingle WETH_ADDRESS ''0xTOKEN'' 10000 10000000000000000000 0],
      Inl NoValidLiquidityPool)"
  using swapTry_to_balance [of
      "exampleEnv (onlyTier 0 0) 8 10000000000000000000 10000000000000000000"
      "exampleRequest ''10'' ''eth'' ''0xTOKEN''" "''0xSIGNER''" WETH_ADDRESS "''0xTOKEN''" "[]"
      10000000000000000000 10000000000000000000]
  by (simp add: exampleEnv_fields exampleRequest_fields toAddress_eth toAddress_0xTOKEN
      parseAmountIn_ten_eth ensureAllowance_example_enough quoteAndSubmit_example_no_liquidity
      andThen_simps)

text \<open>
  Claim C4, amended. A swap request without the \<open>Authorization\<close> header is answered
  with 401 and no call is made; a request with the header and without one of
  \<open>amountIn\<close>, \<open>tokenIn\<close>, \<open>tokenOut\<close> is answered with 400 and no call is made. For a
  complete request every error thrown in the \<open>try\<close> block is answered with 500 and its
  message, and a block that does not throw answers 400 for an insufficient balance or 200
  with the transaction hash. In particular an insufficient balance is answered with 400,
  and a failure of the allowance step (the read, the approval or its wait) or of the steps
  after it (no liquidity, the minimum output, the submission or its wait) with 500.
\<close>

theorem swap_status_codes:
  "(falsy (hdr_authorization req) \<longrightarrow>
      swap ev req = ([], \<lparr> status = 401,
                          body = ErrorMessage ''Private key required in Authorization header'' \<rparr>))
   \<and> (\<not> falsy (hdr_authorization req)
       \<and> (falsy (body_amountIn req) \<or> falsy (body_tokenIn req) \<or> falsy (body_tokenOut req)) \<longrightarrow>
      swap ev req = ([], \<lparr> status = 400,
                          body = ErrorMessage ''Missing required parameters in request body'' \<rparr>))
   \<and> (\<not> falsy (hdr_authorization req) \<and> \<not> falsy (body_amountIn req)
       \<and> \<not> falsy (body_tokenIn req) \<and> \<not> falsy (body_tokenOut req) \<longrightarrow>
        (swapTry ev req = (cs, Inl e) \<longrightarrow>
           swap ev req = (cs, \<lparr> status = 500, body = ErrorThrown e \<rparr>))
      \<and> (swapTry ev req = (cs, Inr r) \<longrightarrow>
           swap ev req = (cs, r)
           \<and> (r = \<lparr> status = 400, body = ErrorMessage ''Insufficient token balance.'' \<rparr>
              \<or> (\<exists>h. r = \<lparr> status = 200, body = TransactionHash h \<rparr>))))
   \<and> (\<not> falsy (hdr_authorization req) \<and> \<not> falsy (body_amountIn req)
       \<and> wallet_of ev (the (hdr_authorization req)) = Inr w
       \<and> toAddress (body_tokenIn req) = Inr tin \<and> toAddress (body_tokenOut req) = Inr tout
       \<and> parseAmountIn ev (body_amountIn req) (body_tokenIn req) = (cs', Inr amt)
       \<and> erc20_balanceOf ev tin w = Inr bal \<longrightarrow>
        (bal < amt \<longrightarrow>
           snd (swap ev req)
             = \<lparr> status = 400, body = ErrorMessage ''Insufficient token balance.'' \<rparr>)
      \<and> (\<not> bal < amt \<and> snd (ensureAllowance ev tin w amt) = Inl e \<longrightarrow>
           snd (swap ev req) = \<lparr> status = 500, body = ErrorThrown e \<rparr>)
      \<and> (\<not> bal < amt \<and> snd (ensureAllowance ev tin w amt) = Inr ()
          \<and> snd (quoteAndSubmit ev w tin tout amt) = Inl e \<longrightarrow>
           snd (swap ev req) = \<lparr> status = 500, body = ErrorThrown e \<rparr>))"
proof -
  have c1: "falsy (hdr_authorization req) \<longrightarrow>
      swap ev req = ([], \<lparr> status = 401,
                          body = ErrorMessage ''Private key required in Authorization header'' \<rparr>)"
    by (simp add: swap_def)
  have c2: "\<not> falsy (hdr_authorization req)
       \<and> (falsy (body_amountIn req) \<or> falsy (body_tokenIn req) \<or> falsy (body_tokenOut req)) \<longrightarrow>
      swap ev req = ([], \<lparr> status = 400,
                          body = ErrorMessage ''Missing required parameters in request body'' \<rparr>)"
    by (simp add: swap_def)
  have c3: "(swapTry ev req = (cs, Inl e) \<longrightarrow>
           swap ev req = (cs, \<lparr> status = 500, body = ErrorThrown e \<rparr>))
      \<and> (swapTry ev req = (cs, Inr r) \<longrightarrow>
           swap ev req = (cs, r)
           \<and> (r = \<lparr> status = 400, body = ErrorMessage ''Insufficient token balance.'' \<rparr>
              \<or> (\<exists>h. r = \<lparr> status = 200, body = TransactionHash h \<rparr>)))"
    if "\<not> falsy (hdr_authorization req)" "\<not> falsy (body_amountIn req)"
       "\<not> falsy (body_tokenIn req)" "\<not> falsy (body_tokenOut req)"
    using swap_present [OF that, of ev] swapTry_Inr [of ev req cs r]
    by (auto simp: catch500_Inl catch500_Inr)
  have c4: "(bal < amt \<longrightarrow>
           snd (swap ev req)
             = \<lparr> status = 400, body = ErrorMessage ''Insufficient token balance.'' \<rparr>)
      \<and> (\<not> bal < amt \<and> snd (ensureAllowance ev tin w amt) = Inl e \<longrightarrow>
           snd (swap ev req) = \<lparr> status = 500, body = ErrorThrown e \<rparr>)
      \<and> (\<not> bal < amt \<and> snd (ensureAllowance ev tin w amt) = Inr ()
          \<and> snd (quoteAndSubmit ev w tin tout amt) = Inl e \<longrightarrow>
           snd (swap ev req) = \<lparr> status = 500, body = ErrorThrown e \<rparr>)"
    if p: "\<not> falsy (hdr_authorization req)" "\<not> falsy (body_amountIn req)"
      and q: "wallet_of ev (the (hdr_authorization req)) = Inr w"
        "toAddress (body_tokenIn req) = Inr tin" "toAddress (body_tokenOut req) = Inr tout"
        "parseAmountIn ev (body_amountIn req) (body_tokenIn req) = (cs', Inr amt)"
        "erc20_balanceOf ev tin w = Inr bal"
  proof -
    have s: "swap ev req = catch500 (swapTry ev req)"
      using p q(2,3) by (simp add: swap_present toAddress_Inr_not_falsy)
    show ?thesis
      unfolding s swapTry_to_balance [OF q]
      by (cases "ensureAllowance ev tin w amt"; cases "quoteAndSubmit ev w tin tout amt")
         (auto simp: catch500_def andThen_simps)
  qed
  from c1 c2 c3 c4 show ?thesis by blast
qed


lemma exampleRequest_present:
  "\<not> falsy (hdr_authorization (exampleRequest ''10'' ''eth'' ''0xTOKEN''))"
  "\<not> falsy (body_amountIn (exampleRequest ''10'' ''eth'' ''0xTOKEN''))"
  "\<not> falsy (body_tokenIn (exampleRequest ''10'' ''eth'' ''0xTOKEN''))"
  "\<not> falsy (body_tokenOut (exampleRequest ''10'' ''eth'' ''0xTOKEN''))"
  by (simp_all add: exampleRequest_fields falsy_def)

theorem swap_status_codes_witness:
  "swap (exampleEnv (onlyTier 0 0) 8 0 0)
      \<lparr> hdr_authorization = None, body_amountIn = Some ''10'', body_tokenIn = Some ''eth'',
        body_tokenOut = Some ''0xTOKEN'' \<rparr>
     = ([], \<lparr> status = 401,
               body = ErrorMessage ''Private key required in Authorization header'' \<rparr>)
   \<and> swap (exampleEnv (onlyTier 0 0) 8 0 0)
      \<lparr> hdr_authorization = Some ''0xKEY'', body_amountIn = Some ''10'', body_tokenIn = None,
        body_tokenOut = Some ''0xTOKEN'' \<rparr>
     = ([], \<lparr> status = 400,
               body = ErrorMessage ''Missing required parameters in request body'' \<rparr>)
   \<and> snd (swap (exampleEnv (onlyTier 0 0) 8 10000000000000000000 10000000000000000000)
             (exampleRequest ''10'' ''eth'' ''0xTOKEN''))
     = \<lparr> status = 500, body = ErrorThrown NoValidLiquidityPool \<rparr>
   \<and> snd (swap (exampleEnv (onlyTier 3000 5000000000) 8 10000000000000000000 0)
             (exampleRequest ''10'' ''eth'' ''0xTOKEN''))
     = \<lparr> status = 200, body = TransactionHash ''0xSWAP'' \<rparr>
   \<and> snd (swap (exampleEnv (onlyTier 3000 5000000000) 8 0 0)
             (exampleRequest ''10'' ''eth'' ''0xTOKEN''))
     = \<lparr> status = 400, body = ErrorMessage ''Insufficient token balance.'' \<rparr>"
proof -
  let ?R = "exampleRequest ''10'' ''eth'' ''0xTOKEN''"
  have a: "swap (exampleEnv (onlyTier 0 0) 8 0 0)
      \<lparr> hdr_authorization = None, body_amountIn = Some ''10'', body_tokenIn = Some ''eth'',
        body_tokenOut = Some ''0xTOKEN'' \<rparr>
     = ([], \<lparr> status = 401,
               body = ErrorMessage ''Private key required in Authorization header'' \<rparr>)"
    using swap_status_codes [of "\<lparr> hdr_authorization = None, body_amountIn = Some ''10'',
        body_tokenIn = Some ''eth'', body_tokenOut = Some ''0xTOKEN'' \<rparr>"
        "exampleEnv (onlyTier 0 0) 8 0 0"]
    by (simp add: falsy_def)
  have b: "swap (exampleEnv (onlyTier 0 0) 8 0 0)
      \<lparr> hdr_authorization = Some ''0xKEY'', body_amountIn = Some ''10'', body_tokenIn = None,
        body_tokenOut = Some ''0xTOKEN'' \<rparr>
     = ([], \<lparr> status = 400,
               body = ErrorMessage ''Missing required parameters in request body'' \<rparr>)"
    using swap_status_codes [of "\<lparr> hdr_authorization = Some ''0xKEY'', body_amountIn = Some ''10'',
        body_tokenIn = None, body_tokenOut = Some ''0xTOKEN'' \<rparr>"
        "exampleEnv (onlyTier 0 0) 8 0 0"]
    by (simp add: falsy_def)
  have c: "snd (swap (exampleEnv (onlyTier 0 0) 8 10000000000000000000 10000000000000000000) ?R)
     = \<lparr> status = 500, body = ErrorThrown NoValidLiquidityPool \<rparr>"
    using swap_status_codes [of ?R
        "exampleEnv (onlyTier 0 0) 8 10000000000000000000 10000000000000000000"
        "[BalanceOf WETH_ADDRESS ''0xSIGNER'',
          Allowance WETH_ADDRESS ''0xSIGNER'' UNISWAP_V3_ROUTER_ADDRESS,
          QuoteExactInputSingle WETH_ADDRESS ''0xTOKEN'' 500 10000000000000000000 0,
          QuoteExactInputSingle WETH_ADDRESS ''0xTOKEN'' 3000 10000000000000000000 0,
          QuoteExactInputSingle WETH_ADDRESS ''0xTOKEN'' 10000 10000000000000000000 0]"
        NoValidLiquidityPool]
    by (simp add: exampleRequest_present swapTry_example_no_liquidity)
  have d: "snd (swap (exampleEnv (onlyTier 3000 5000000000) 8 10000000000000000000 0) ?R)
     = \<lparr> status = 200, body = TransactionHash ''0xSWAP'' \<rparr>"
    using swap_status_codes [of ?R
        "exampleEnv (onlyTier 3000 5000000000) 8 10000000000000000000 0"
        "fst (swapTry (exampleEnv (onlyTier 3000 5000000000) 8 10000000000000000000 0) ?R)"
        NoValidLiquidityPool "\<lparr> status = 200, body = TransactionHash ''0xSWAP'' \<rparr>"]
    by (simp add: exampleRequest_present swapTry_example_success)
  have e: "snd (swap (exampleEnv (onlyTier 3000 5000000000) 8 0 0) ?R)
     = \<lparr> status = 400, body = ErrorMessage ''Insufficient token balance.'' \<rparr>"
    using swap_status_codes [of ?R "exampleEnv (onlyTier 3000 5000000000) 8 0 0" "[]"
        NoValidLiquidityPool "\<lparr> status = 200, body = TransactionHash ''0xSWAP'' \<rparr>"
        "''0xSIGNER''" WETH_ADDRESS "''0xTOKEN''" "[]" 10000000000000000000 0]
    by (simp add: exampleRequest_fields falsy_def exampleEnv_fields toAddress_eth
        toAddress_0xTOKEN parseAmountIn_ten_eth)
  from a b c d e show ?thesis by simp
qed

text \<open>
  Counterexample to claim C4 as stated, which lists an insufficient balance among the
  failures answered with 500: the handler answers 400.
\<close>

theorem insufficient_balance_answers_400:
  "status (snd (swap (exampleEnv (onlyTier 3000 5000000000) 8 0 0)
                  (exampleRequest ''10'' ''eth'' ''0xTOKEN''))) = 400
   \<and> status (snd (swap (exampleEnv (onlyTier 3000 5000000000) 8 0 0)
                  (exampleRequest ''10'' ''eth'' ''0xTOKEN''))) \<noteq> 500"
  by (simp add: swap_present exampleRequest_present swapTry_example_insufficient catch500_Inr)

section \<open>Minimum output on the swap path: claim C1\<close>

lemma toAddress_usdt: "toAddress (Some ''usdt'') = Inr ''usdt''"
  by (simp add: toAddress_Some toLowerCase_usdt)

lemma parseAmountIn_one_eth:
  "parseAmountIn ev (Some ''1'') (Some ''eth'') = ([], Inr 1000000000000000000)"
  using parseAmountIn_weth [of "Some ''1''" "Some ''eth''" WETH_ADDRESS ev]
  by (simp add: falsy_def toAddress_eth parseUnits_one)

lemma quoteAndSubmit_example_usdt:
  "quoteAndSubmit (exampleEnv (onlyTier 500 1000000) d b a) w WETH_ADDRESS ''usdt'' amt
     = ([QuoteExactInputSingle WETH_ADDRESS ''usdt'' 500 amt 0], Inl NumericFault)"
proof -
  have s: "calculateSlippage WETH_ADDRESS ''usdt'' = BASE_SLIPPAGE"
    by (simp add: calculateSlippage_def toLowerCase_usdt)
  show ?thesis
    by (simp add: quoteAndSubmit_def getBestQuote_cases exampleEnv_fields onlyTier_def
        andThen_simps s amountOutMinimum_half_percent)
qed

lemma swap_example_usdt:
  "swap (exampleEnv (onlyTier 500 1000000) 6 1000000000000000000 1000000000000000000)
     (exampleRequest ''1'' ''eth'' ''usdt'')
   = ([BalanceOf WETH_ADDRESS ''0xSIGNER'',
       Allowance WETH_ADDRESS ''0xSIGNER'' UNISWAP_V3_ROUTER_ADDRESS,
       QuoteExactInputSingle WETH_ADDRESS ''usdt'' 500 1000000000000000000 0],
      \<lparr> status = 500, body = ErrorThrown NumericFault \<rparr>)"
proof -
  let ?E = "exampleEnv (onlyTier 500 1000000) 6 1000000000000000000 1000000000000000000"
  let ?R = "exampleRequest ''1'' ''eth'' ''usdt''"
  have "swapTry ?E ?R
   = ([BalanceOf WETH_ADDRESS ''0xSIGNER'',
       Allowance WETH_ADDRESS ''0xSIGNER'' UNISWAP_V3_ROUTER_ADDRESS,
       QuoteExactInputSingle WETH_ADDRESS ''usdt'' 500 1000000000000000000 0],
      Inl NumericFault)"
    using swapTry_to_balance [of ?E ?R "''0xSIGNER''" WETH_ADDRESS "''usdt''" "[]"
        1000000000000000000 1000000000000000000]
    by (simp add: exampleEnv_fields exampleRequest_fields toAddress_eth toAddress_usdt
        parseAmountIn_one_eth ensureAllowance_example_enough quoteAndSubmit_example_usdt
        andThen_simps)
  then show ?thesis
    by (simp add: swap_def exampleRequest_fields falsy_def catch500_Inl)
qed

text \<open>
  Claim C1. The minimum output is \<open>amountOut * (100 - bound * 100) / 100\<close> in truncating
  integer arithmetic, \<open>970000\<close> for \<open>1000000\<close> at 3%. For the bound 0.5%, which
  \<open>calculateSlippage\<close> returns for WETH and \<open>usdt\<close>, the factor is \<open>99.5\<close> and
  \<open>BigNumber.mul\<close> throws a numeric fault: no minimum output is computed for \<open>1000000\<close>,
  where the claim gives \<open>995000\<close>, and a swap of WETH for \<open>usdt\<close> that has been quoted
  is answered with 500.
\<close>

theorem amountOutMinimum_base_slippage_throws:
  "amountOutMinimum 1000000 (calculateSlippage WETH_ADDRESS ''usdt'') = Inl NumericFault
   \<and> calculateSlippage WETH_ADDRESS ''usdt'' = 5 / 1000
   \<and> amountOutMinimum 1000000 (3 / 100) = Inr 970000
   \<and> snd (swap (exampleEnv (onlyTier 500 1000000) 6 1000000000000000000 1000000000000000000)
             (exampleRequest ''1'' ''eth'' ''usdt''))
       = \<lparr> status = 500, body = ErrorThrown NumericFault \<rparr>"
proof -
  have s: "calculateSlippage WETH_ADDRESS ''usdt'' = BASE_SLIPPAGE"
    by (simp add: calculateSlippage_def toLowerCase_usdt)
  have m: "amountOutMinimum 1000000 (3 / 100) = Inr 970000"
    using amountOutMinimum_three_percent [of 1000000]
    by (simp add: MAX_SLIPPAGE_def signed_divide_int_def)
  show ?thesis
    using m by (simp add: s amountOutMinimum_half_percent swap_example_usdt)
      (simp add: BASE_SLIPPAGE_def)
qed

end
